theory Spec2Isabelle
  imports Main "HOL-Library.AList"
begin

section \<open>Values of the host environment\<close>

text \<open>
  The scripts of \<^verbatim>\<open>mymap_airtable_api.js\<close> run inside a record store (the ambient
  \<^verbatim>\<open>base\<close>) and talk to job services over HTTP. A cell of a record is empty, a text or
  a number; \<^verbatim>\<open>getCellValue\<close> yields \<^verbatim>\<open>null\<close> for an empty or absent cell.
\<close>

datatype cell = Null | Str string | Num int

text \<open>JavaScript's \<^verbatim>\<open>!v\<close>: \<^verbatim>\<open>null\<close>, the empty string and zero are falsy.\<close>

fun falsy :: "cell \<Rightarrow> bool" where
  "falsy Null = True"
| "falsy (Str s) = (s = [])"
| "falsy (Num n) = (n = 0)"

text \<open>
  Decimal rendering of a number, as a template literal and \<^verbatim>\<open>JSON.stringify\<close> print
  an integer of magnitude below \<open>10\<^sup>2\<^sup>1\<close>. JavaScript prints larger numbers in
  exponent form; numbers that large are outside what is modelled here.
\<close>

definition digit_char :: "nat \<Rightarrow> char" where
  "digit_char d = ''0123456789'' ! d"

function show_nat :: "nat \<Rightarrow> string" where
  "show_nat n = (if n < 10 then [digit_char n] else show_nat (n div 10) @ [digit_char (n mod 10)])"
  by pat_completeness auto
termination
  by (relation "measure id") auto

declare show_nat.simps [simp del]

definition show_int :: "int \<Rightarrow> string" where
  "show_int i = (if i < 0 then CHR ''-'' # show_nat (nat (- i)) else show_nat (nat i))"

text \<open>\<^verbatim>\<open>record.getCellValueAsString\<close> renders an empty cell as the empty string.\<close>

fun cell_as_string :: "cell \<Rightarrow> string" where
  "cell_as_string Null = []"
| "cell_as_string (Str s) = s"
| "cell_as_string (Num n) = show_int n"

text \<open>JavaScript's string coercion of a cell value (\<^verbatim>\<open>JSON.parse\<close> coerces its argument).\<close>

fun js_String :: "cell \<Rightarrow> string" where
  "js_String Null = ''null''"
| "js_String (Str s) = s"
| "js_String (Num n) = show_int n"

text \<open>
  JSON values. A request body is kept as the object handed to \<^verbatim>\<open>JSON.stringify\<close>,
  with its keys in the order the script writes them.
\<close>

datatype json =
    JNull
  | JBool bool
  | JNum int
  | JStr string
  | JArr "json list"
  | JObj "(string \<times> json) list"

fun cell_json :: "cell \<Rightarrow> json" where
  "cell_json Null = JNull"
| "cell_json (Str s) = JStr s"
| "cell_json (Num n) = JNum n"

text \<open>
  \<^verbatim>\<open>JSON.stringify\<close> of a cell value: \<^verbatim>\<open>null\<close>, a decimal number, or a quoted string
  with the quote, the backslash and the control characters escaped.
\<close>

definition hex_char :: "nat \<Rightarrow> char" where
  "hex_char d = ''0123456789abcdef'' ! d"

definition json_escape :: "char \<Rightarrow> string" where
  "json_escape c =
     (if c = CHR 0x22 then [CHR 0x5C, CHR 0x22]
      else if c = CHR 0x5C then [CHR 0x5C, CHR 0x5C]
      else if c = CHR 0x08 then [CHR 0x5C, CHR ''b'']
      else if c = CHR 0x09 then [CHR 0x5C, CHR ''t'']
      else if c = CHR 0x0A then [CHR 0x5C, CHR ''n'']
      else if c = CHR 0x0C then [CHR 0x5C, CHR ''f'']
      else if c = CHR 0x0D then [CHR 0x5C, CHR ''r'']
      else if (of_char c :: nat) < 32
        then [CHR 0x5C, CHR ''u'', CHR ''0'', CHR ''0'',
              hex_char ((of_char c :: nat) div 16), hex_char ((of_char c :: nat) mod 16)]
      else [c])"

fun JSON_stringify :: "cell \<Rightarrow> string" where
  "JSON_stringify Null = ''null''"
| "JSON_stringify (Num n) = show_int n"
| "JSON_stringify (Str s) = CHR 0x22 # concat (map json_escape s) @ [CHR 0x22]"

text \<open>
  The own enumerable properties an object spread \<^verbatim>\<open>{...v}\<close> copies: the members of an
  object, the indexed elements of an array or of a string, nothing for other values.
\<close>

fun own_properties :: "json \<Rightarrow> (string \<times> json) list" where
  "own_properties (JObj kvs) = kvs"
| "own_properties (JArr xs) = zip (map show_nat [0..<length xs]) xs"
| "own_properties (JStr s) = zip (map show_nat [0..<length s]) (map (\<lambda>c. JStr [c]) s)"
| "own_properties v = []"

text \<open>
  An object literal \<^verbatim>\<open>{...spread, k1: v1, ..., kn: vn}\<close>: a later key overwrites an
  earlier one in place, a new key is appended.
\<close>

definition object_literal :: "(string \<times> json) list \<Rightarrow> (string \<times> json) list \<Rightarrow> (string \<times> json) list" where
  "object_literal spread kvs = fold (\<lambda>(k, v) al. AList.update k v al) kvs spread"

text \<open>Errors. \<open>Error m\<close> is the script's own \<^verbatim>\<open>throw new Error(m)\<close>; the others are raised by the host.\<close>

datatype error =
    Error string
  | TypeError
  | SyntaxError
  | TableNotFound string
  | FetchRejected string
  | CreateFieldFailed string

text \<open>
  The outcome of an asynchronous call: it returns, it throws, or it never settles
  (an awaited promise that stays pending).
\<close>

datatype 'a res = Ok 'a | Threw error | Hung

section \<open>The record store\<close>

record airtable_record =
  rec_id :: string
  cells :: "string \<rightharpoonup> cell"

text \<open>
  A table: its fields (name and type) as \<^verbatim>\<open>getConfigAsync().columns\<close> lists them, its
  records in query order, and what \<^verbatim>\<open>createFieldAsync\<close> throws on it, if anything.
\<close>

record airtable_table =
  t_columns :: "(string \<times> string) list"
  t_records :: "airtable_record list"
  t_create_error :: "string option"

section \<open>The network\<close>

record request =
  url :: string
  http_method :: string
  headers :: "(string \<times> string) list"
  body :: json

text \<open>
  What the remote endpoint does with a request: it answers with a status after some
  milliseconds, the request fails after some milliseconds, or nothing ever comes back.
\<close>

datatype reply = Reply nat nat | Rejects nat string | Silent

text \<open>
  The world a script runs in: the tables of the base by id or name, the endpoint's
  behaviour for the \<open>k\<close>-th request issued, the host's \<^verbatim>\<open>JSON.parse\<close> (\<open>None\<close> is a
  syntax error), and the log of the requests issued so far.
\<close>

record world =
  tables :: "string \<rightharpoonup> airtable_table"
  remote :: "nat \<Rightarrow> request \<Rightarrow> reply"
  JSON_parse :: "string \<Rightarrow> json option"
  requests :: "request list"

definition getTable :: "world \<Rightarrow> string \<Rightarrow> airtable_table res" where
  "getTable w table_id =
     (case tables w table_id of
        None \<Rightarrow> Threw (TableNotFound table_id)
      | Some table \<Rightarrow> Ok table)"

definition selectRecordAsync :: "airtable_table \<Rightarrow> string \<Rightarrow> airtable_record option" where
  "selectRecordAsync table record_id = find (\<lambda>r. rec_id r = record_id) (t_records table)"

definition selectRecordsAsync :: "airtable_table \<Rightarrow> string list \<Rightarrow> airtable_record list" where
  "selectRecordsAsync table recordIds = filter (\<lambda>r. rec_id r \<in> set recordIds) (t_records table)"

definition getCellValue :: "airtable_record \<Rightarrow> string \<Rightarrow> cell" where
  "getCellValue r field = (case cells r field of None \<Rightarrow> Null | Some v \<Rightarrow> v)"

definition getCellValueAsString :: "airtable_record \<Rightarrow> string \<Rightarrow> string" where
  "getCellValueAsString r field = cell_as_string (getCellValue r field)"

text \<open>
  \<^verbatim>\<open>table.createFieldAsync\<close> on the table handle \<open>table\<close> of \<open>table_id\<close>: it throws, or
  the field is appended to the table in the base.
\<close>

definition createFieldAsync ::
  "world \<Rightarrow> string \<Rightarrow> airtable_table \<Rightarrow> string \<Rightarrow> string \<Rightarrow> (airtable_table \<times> world) res" where
  "createFieldAsync w table_id table field_name field_type =
     (case t_create_error table of
        Some m \<Rightarrow> Threw (CreateFieldFailed m)
      | None \<Rightarrow>
          let table' = table\<lparr>t_columns := t_columns table @ [(field_name, field_type)]\<rparr>
          in Ok (table', w\<lparr>tables := (tables w)(table_id \<mapsto> table')\<rparr>))"

text \<open>\<^verbatim>\<open>fetch\<close> logs the request and hands back what the endpoint will do with it.\<close>

definition fetch :: "world \<Rightarrow> request \<Rightarrow> reply \<times> world" where
  "fetch w rq = (remote w (length (requests w)) rq, w\<lparr>requests := requests w @ [rq]\<rparr>)"

text \<open>\<^verbatim>\<open>await\<close> on the fetch promise: the response's status, the rejection, or no return.\<close>

fun await :: "reply \<Rightarrow> nat res" where
  "await (Reply t status) = Ok status"
| "await (Rejects t m) = Threw (FetchRejected m)"
| "await Silent = Hung"

text \<open>
  \<^verbatim>\<open>Promise.race([fetchPromise, timeoutPromise])\<close>: the fetch wins when it settles
  strictly before the timer, which was armed first and rejects with \<open>e\<close> after
  \<open>timeout\<close> milliseconds.
\<close>

fun race :: "nat \<Rightarrow> error \<Rightarrow> reply \<Rightarrow> nat res" where
  "race timeout e (Reply t status) = (if t < timeout then Ok status else Threw e)"
| "race timeout e (Rejects t m) = (if t < timeout then Threw (FetchRejected m) else Threw e)"
| "race timeout e Silent = Threw e"

text \<open>\<^verbatim>\<open>response.ok\<close>: the status is in the range 200 to 299.\<close>

definition ok :: "nat \<Rightarrow> bool" where
  "ok status = (200 \<le> status \<and> status \<le> 299)"

text \<open>The requests a call added to the log.\<close>

definition issued :: "world \<Rightarrow> world \<Rightarrow> request list" where
  "issued w w' = drop (length (requests w)) (requests w')"

text \<open>A member of a request's JSON payload.\<close>

definition payload :: "request \<Rightarrow> string \<Rightarrow> json option" where
  "payload rq k = (case body rq of JObj kvs \<Rightarrow> map_of kvs k | _ \<Rightarrow> None)"

section \<open>The scripts\<close>

text \<open>
  Each script takes the world and its arguments in the source's order and returns
  its outcome with the world it leaves behind. Console output is not modelled. A handler
  that logs and rethrows leaves the error as it is.
\<close>

definition post :: "string \<Rightarrow> (string \<times> json) list \<Rightarrow> request" where
  "post endpoint members =
     \<lparr>url = endpoint, http_method = ''POST'', headers = [], body = JObj members\<rparr>"

subsection \<open>\<^verbatim>\<open>create_map_image\<close>\<close>

definition CREATE_MAP_API_ENDPOINT :: string where
  "CREATE_MAP_API_ENDPOINT = ''https://jobs.mymap.ai/jobs/new_map_image/run''"

definition TIMEOUT :: nat where
  "TIMEOUT = 120000"

definition map_image_request ::
  "cell \<Rightarrow> cell \<Rightarrow> string \<Rightarrow> string \<Rightarrow> string \<Rightarrow> string \<Rightarrow> request" where
  "map_image_request tpl prompt output_column record_id table_id base_id =
     post CREATE_MAP_API_ENDPOINT
       [(''base_id'', JStr base_id),
        (''table_id'', JStr table_id),
        (''record_id'', JStr record_id),
        (''output_column'', JStr output_column),
        (''visuals'', JArr [JObj [(''tpl'', cell_json tpl), (''prompt'', cell_json prompt)]])]"

definition create_map_image ::
  "world \<Rightarrow> string \<Rightarrow> string \<Rightarrow> string \<Rightarrow> string \<Rightarrow> string \<Rightarrow> string \<Rightarrow> unit res \<times> world" where
  "create_map_image w tpl_column prompt_column output_column record_id table_id base_id =
     (case getTable w table_id of
        Threw e \<Rightarrow> (Threw e, w)
      | Hung \<Rightarrow> (Hung, w)
      | Ok table \<Rightarrow>
          (case selectRecordsAsync table [record_id] of
             [] \<Rightarrow> (Threw TypeError, w)
           | record # _ \<Rightarrow>
               let tpl = getCellValue record tpl_column;
                   prompt = getCellValue record prompt_column
               in if falsy tpl \<or> falsy prompt
                  then (Threw (Error ''Missing template or prompt''), w)
                  else
                    let (fetchPromise, w') =
                          fetch w (map_image_request tpl prompt output_column record_id table_id base_id)
                    in (case race TIMEOUT
                              (Error (''Request timed out after '' @ show_nat (TIMEOUT div 1000) @ '' seconds''))
                              fetchPromise of
                         Threw e \<Rightarrow> (Threw e, w')
                       | Hung \<Rightarrow> (Hung, w')
                       | Ok status \<Rightarrow>
                           if \<not> ok status
                           then (Threw (Error (''API request failed with status '' @ show_nat status)), w')
                           else (Ok (), w'))))"

subsection \<open>\<^verbatim>\<open>ai_generate\<close>\<close>

definition AI_GENERATE_API_ENDPOINT :: string where
  "AI_GENERATE_API_ENDPOINT = ''https://jobs.mymap.ai/job/ai2col/run''"

definition PROMPTS_TABLE_NAME :: string where
  "PROMPTS_TABLE_NAME = ''Prompts''"

text \<open>The inner function of \<^verbatim>\<open>ai_generate\<close> that looks the prompt up by name.\<close>

definition getSystemPrompt :: "world \<Rightarrow> string \<Rightarrow> cell res" where
  "getSystemPrompt w promptName =
     (case getTable w PROMPTS_TABLE_NAME of
        Threw e \<Rightarrow> Threw e
      | Hung \<Rightarrow> Hung
      | Ok promptsTable \<Rightarrow>
          let matchingRecords =
                filter (\<lambda>r. getCellValueAsString r ''Name'' = promptName) (t_records promptsTable)
          in (case matchingRecords of
               r # _ \<Rightarrow> Ok (getCellValue r ''Prompt'')
             | [] \<Rightarrow> Ok Null))"

text \<open>\<^verbatim>\<open>Array.prototype.join\<close> on strings.\<close>

fun join :: "string \<Rightarrow> string list \<Rightarrow> string" where
  "join sep [] = []"
| "join sep [x] = x"
| "join sep (x # y # ys) = x @ sep @ join sep (y # ys)"

definition xml_wrap :: "airtable_record \<Rightarrow> string \<Rightarrow> string" where
  "xml_wrap r col = ''<'' @ col @ ''>'' @ getCellValueAsString r col @ ''</'' @ col @ ''>''"

definition ai_generate_request ::
  "string \<Rightarrow> string \<Rightarrow> string \<Rightarrow> string \<Rightarrow> string \<Rightarrow> cell \<Rightarrow> string \<Rightarrow> bool \<Rightarrow> request" where
  "ai_generate_request base_id table_id record_id output_column model system_prompt user_msg
       openai_json_format =
     post AI_GENERATE_API_ENDPOINT
       [(''base_id'', JStr base_id),
        (''table_id'', JStr table_id),
        (''record_id'', JStr record_id),
        (''output_column'', JStr output_column),
        (''model'', JStr model),
        (''system_prompt'', cell_json system_prompt),
        (''user_msg'', JStr user_msg),
        (''openai_json_format'', JBool openai_json_format)]"

text \<open>
  The callback of \<^verbatim>\<open>input_columns.map\<close> reads the record, so a missing record
  (\<^verbatim>\<open>null\<close>) raises only when there is a column to map. The source's defaults for
  the last two parameters are \<^verbatim>\<open>"gpt-4o"\<close> and \<^verbatim>\<open>false\<close>.
\<close>

definition ai_generate ::
  "world \<Rightarrow> string list \<Rightarrow> string \<Rightarrow> string \<Rightarrow> string \<Rightarrow> string \<Rightarrow> string \<Rightarrow> string \<Rightarrow> bool
     \<Rightarrow> unit res \<times> world" where
  "ai_generate w input_columns system_prompt_name output_column record_id table_id base_id model
       openai_json_format =
     (case getSystemPrompt w system_prompt_name of
        Threw e \<Rightarrow> (Threw e, w)
      | Hung \<Rightarrow> (Hung, w)
      | Ok system_prompt \<Rightarrow>
          if falsy system_prompt
          then (Threw (Error (''Failed to retrieve system prompt: '' @ system_prompt_name)), w)
          else
            (case getTable w table_id of
               Threw e \<Rightarrow> (Threw e, w)
             | Hung \<Rightarrow> (Hung, w)
             | Ok table \<Rightarrow>
                 (case (case selectRecordAsync table record_id of
                          None \<Rightarrow> if input_columns = [] then Ok [] else Threw TypeError
                        | Some record \<Rightarrow> Ok (join [CHR 0x0A] (map (xml_wrap record) input_columns))) of
                    Threw e \<Rightarrow> (Threw e, w)
                  | Hung \<Rightarrow> (Hung, w)
                  | Ok user_msg \<Rightarrow>
                      let (fetchPromise, w') =
                            fetch w (ai_generate_request base_id table_id record_id output_column
                                       model system_prompt user_msg openai_json_format)
                      in (case await fetchPromise of
                           Threw e \<Rightarrow> (Threw e, w')
                         | Hung \<Rightarrow> (Hung, w')
                         | Ok status \<Rightarrow> (Ok (), w')))))"

subsection \<open>\<^verbatim>\<open>translate_i18n\<close>\<close>

definition AI_API_ENDPOINT :: string where
  "AI_API_ENDPOINT = ''https://jobs.mymap.ai/jobs/ai2col/run''"

record language =
  column :: string
  name :: string

text \<open>The inner function of \<^verbatim>\<open>translate_i18n\<close> that builds the prompt of a language.\<close>

definition getSystemPrompt_i18n :: "string \<Rightarrow> string" where
  "getSystemPrompt_i18n languageName =
     [CHR 0x0A] @
     ''I am an SEO writing master in '' @ languageName @
     ''. I am here to translate a page content into '' @ languageName @
     ''. Make sure you read the entire content first, not just translate sentence by sentence. Write like native speakers.'' @
     [CHR 0x0A, CHR 0x0A] @
     ''Guideline'' @ [CHR 0x0A] @
     ''- The input is in json format. Translate values in all JSON keys. Do not change the keys'' @
     [CHR 0x0A] @
     ''- Do not translate the '' @ [CHR 0x22] @ ''slug'' @ [CHR 0x22] @ '' key & value'' @ [CHR 0x0A] @
     ''- If the value for translation is html dom format, keep the html tags as original, only translate the content'' @
     [CHR 0x0A] @
     ''- Output the JSON only, no extra message or code block.'' @ [CHR 0x0A] @
     ''- Maintain SEO best practices and adapt content appropriately for a '' @ languageName @
     ''-speaking audience.'' @ [CHR 0x0A] @
     ''- keep original json key name, do not change key names in your output!'' @ [CHR 0x0A] @
     ''        ''"

definition translate_request ::
  "string \<Rightarrow> string \<Rightarrow> string \<Rightarrow> string \<Rightarrow> string \<Rightarrow> language \<Rightarrow> request" where
  "translate_request base_id table_id record_id model user_msg lang =
     post AI_API_ENDPOINT
       [(''base_id'', JStr base_id),
        (''table_id'', JStr table_id),
        (''record_id'', JStr record_id),
        (''output_column'', JStr (column lang)),
        (''model'', JStr model),
        (''system_prompt'', JStr (getSystemPrompt_i18n (name lang))),
        (''user_msg'', JStr user_msg),
        (''openai_json_format'', JBool True)]"

text \<open>The inner function \<^verbatim>\<open>translateToLanguage\<close>: one request, then the status check.\<close>

definition translateToLanguage ::
  "string \<Rightarrow> string \<Rightarrow> string \<Rightarrow> string \<Rightarrow> string \<Rightarrow> world \<Rightarrow> language \<Rightarrow> unit res \<times> world" where
  "translateToLanguage base_id table_id record_id model user_msg w lang =
     (let (fetchPromise, w') = fetch w (translate_request base_id table_id record_id model user_msg lang)
      in (case await fetchPromise of
           Threw e \<Rightarrow> (Threw e, w')
         | Hung \<Rightarrow> (Hung, w')
         | Ok status \<Rightarrow>
             if \<not> ok status
             then (Threw (Error (''HTTP error! status: '' @ show_nat status)), w')
             else (Ok (), w')))"

text \<open>The loop \<^verbatim>\<open>for (let language of languages) await translateToLanguage(language)\<close>.\<close>

fun translate_loop ::
  "string \<Rightarrow> string \<Rightarrow> string \<Rightarrow> string \<Rightarrow> string \<Rightarrow> world \<Rightarrow> language list \<Rightarrow> unit res \<times> world" where
  "translate_loop base_id table_id record_id model user_msg w [] = (Ok (), w)"
| "translate_loop base_id table_id record_id model user_msg w (lang # languages) =
     (case translateToLanguage base_id table_id record_id model user_msg w lang of
        (Ok u, w') \<Rightarrow> translate_loop base_id table_id record_id model user_msg w' languages
      | (Threw e, w') \<Rightarrow> (Threw e, w')
      | (Hung, w') \<Rightarrow> (Hung, w'))"

text \<open>The source's default for the last parameter is \<^verbatim>\<open>"gpt-4o"\<close>.\<close>

definition translate_i18n ::
  "world \<Rightarrow> string \<Rightarrow> language list \<Rightarrow> string \<Rightarrow> string \<Rightarrow> string \<Rightarrow> string \<Rightarrow> unit res \<times> world" where
  "translate_i18n w input_json_column languages record_id table_id base_id model =
     (case getTable w table_id of
        Threw e \<Rightarrow> (Threw e, w)
      | Hung \<Rightarrow> (Hung, w)
      | Ok table \<Rightarrow>
          (case selectRecordAsync table record_id of
             None \<Rightarrow> (Threw TypeError, w)
           | Some record \<Rightarrow>
               let input_json = getCellValue record input_json_column;
                   user_msg = JSON_stringify input_json
               in translate_loop base_id table_id record_id model user_msg w languages))"

subsection \<open>\<^verbatim>\<open>google_search\<close>\<close>

definition SEARCH_API_ENDPOINT :: string where
  "SEARCH_API_ENDPOINT = ''https://jobs.mymap.ai/job/keywords_search/run''"

definition search_request :: "string \<Rightarrow> string \<Rightarrow> string \<Rightarrow> string \<Rightarrow> string \<Rightarrow> request" where
  "search_request base_id table_id record_id output_column keywords =
     post SEARCH_API_ENDPOINT
       [(''base_id'', JStr base_id),
        (''table_id'', JStr table_id),
        (''record_id'', JStr record_id),
        (''output_column'', JStr output_column),
        (''keywords'', JStr keywords)]"

definition google_search ::
  "world \<Rightarrow> string \<Rightarrow> string \<Rightarrow> string \<Rightarrow> string \<Rightarrow> string \<Rightarrow> unit res \<times> world" where
  "google_search w input_column output_column record_id table_id base_id =
     (case getTable w table_id of
        Threw e \<Rightarrow> (Threw e, w)
      | Hung \<Rightarrow> (Hung, w)
      | Ok table \<Rightarrow>
          (case selectRecordAsync table record_id of
             None \<Rightarrow> (Threw TypeError, w)
           | Some record \<Rightarrow>
               let keywords = getCellValueAsString record input_column
               in if keywords = []
                  then (Threw (Error ''No keywords found''), w)
                  else
                    let (fetchPromise, w') =
                          fetch w (search_request base_id table_id record_id output_column keywords)
                    in (case await fetchPromise of
                          Threw e \<Rightarrow> (Threw e, w')
                        | Hung \<Rightarrow> (Hung, w')
                        | Ok status \<Rightarrow> (Ok (), w'))))"

subsection \<open>\<^verbatim>\<open>crawl_url_content\<close>\<close>

definition CRAWL_URL_API_ENDPOINT :: string where
  "CRAWL_URL_API_ENDPOINT = ''https://jobs.mymap.ai/job/url2text/run''"

definition crawl_request :: "string \<Rightarrow> string \<Rightarrow> string \<Rightarrow> string \<Rightarrow> cell \<Rightarrow> request" where
  "crawl_request base_id table_id record_id output_column url_value =
     post CRAWL_URL_API_ENDPOINT
       [(''base_id'', JStr base_id),
        (''table_id'', JStr table_id),
        (''record_id'', JStr record_id),
        (''output_column'', JStr output_column),
        (''url'', cell_json url_value)]"

definition crawl_url_content ::
  "world \<Rightarrow> string \<Rightarrow> string \<Rightarrow> string \<Rightarrow> string \<Rightarrow> string \<Rightarrow> unit res \<times> world" where
  "crawl_url_content w input_column output_column record_id table_id base_id =
     (case getTable w table_id of
        Threw e \<Rightarrow> (Threw e, w)
      | Hung \<Rightarrow> (Hung, w)
      | Ok table \<Rightarrow>
          (case selectRecordsAsync table [record_id] of
             [] \<Rightarrow> (Threw TypeError, w)
           | record # _ \<Rightarrow>
               let url_value = getCellValue record input_column
               in if falsy url_value
                  then (Threw (Error ''No URL found''), w)
                  else
                    let (fetchPromise, w') =
                          fetch w (crawl_request base_id table_id record_id output_column url_value)
                    in (case await fetchPromise of
                          Threw e \<Rightarrow> (Threw e, w')
                        | Hung \<Rightarrow> (Hung, w')
                        | Ok status \<Rightarrow>
                            if \<not> ok status
                            then (Threw (Error (''API request failed with status '' @ show_nat status)), w')
                            else (Ok (), w'))))"

subsection \<open>\<^verbatim>\<open>sync_to_wordpress\<close>\<close>

definition API_ENDPOINT :: string where
  "API_ENDPOINT = ''https://jobs.mymap.ai/job/wp_post_mymap/run''"

definition sync_request ::
  "json \<Rightarrow> cell \<Rightarrow> cell \<Rightarrow> cell \<Rightarrow> string \<Rightarrow> string \<Rightarrow> string \<Rightarrow> string \<Rightarrow> string \<Rightarrow> request" where
  "sync_request post_data post_id author_id post_id_en lang base_id table_id record_id post_id_column =
     \<lparr>url = API_ENDPOINT,
      http_method = ''POST'',
      headers = [(''Content-Type'', ''application/json'')],
      body = JObj
        [(''post'', JObj (object_literal (own_properties post_data)
            [(''id'', if falsy post_id then JNull else cell_json post_id),
             (''status'', JStr ''publish''),
             (''author'', cell_json author_id),
             (''categories'', JArr []),
             (''tags'', JArr []),
             (''meta'', JObj [])])),
         (''post_en_id'', cell_json post_id_en),
         (''post_lang'', JStr lang),
         (''base_id'', JStr base_id),
         (''table_id'', JStr table_id),
         (''record_id'', JStr record_id),
         (''post_id_column'', JStr post_id_column)]\<rparr>"

text \<open>
  The second half of the script, from the first read of the record on: the cells are
  read, content and author are checked, the content is parsed and the post is sent.
  A missing record (\<^verbatim>\<open>null\<close>) raises at the first read;
  \<^verbatim>\<open>Object.keys(post_data)\<close> raises on \<^verbatim>\<open>null\<close>.
\<close>

definition sync_record ::
  "world \<Rightarrow> airtable_record option \<Rightarrow> string \<Rightarrow> string \<Rightarrow> string \<Rightarrow> string \<Rightarrow> string \<Rightarrow> string
     \<Rightarrow> unit res \<times> world" where
  "sync_record w1 fetched lang author_id_column record_id table_id base_id post_id_column =
     (case fetched of
        None \<Rightarrow> (Threw TypeError, w1)
      | Some record \<Rightarrow>
          let post_id = getCellValue record post_id_column;
              post_data = getCellValue record lang;
              post_id_en = getCellValue record ''post_id_en'';
              author_id = getCellValue record author_id_column
          in if falsy post_data
             then (Threw (Error ''No content found''), w1)
             else if falsy author_id
             then (Threw (Error ''No author ID found''), w1)
             else
               (case JSON_parse w1 (js_String post_data) of
                  None \<Rightarrow> (Threw SyntaxError, w1)
                | Some parsed \<Rightarrow>
                    if parsed = JNull
                    then (Threw TypeError, w1)
                    else
                      let (fetchPromise, w2) =
                            fetch w1 (sync_request parsed post_id author_id post_id_en
                                        lang base_id table_id record_id post_id_column)
                      in (case await fetchPromise of
                            Threw e \<Rightarrow> (Threw e, w2)
                          | Hung \<Rightarrow> (Hung, w2)
                          | Ok status \<Rightarrow>
                              if \<not> ok status
                              then (Threw (Error (''API request failed with status '' @
                                                    show_nat status)), w2)
                              else (Ok (), w2))))"

text \<open>
  The first half: the record is fetched, the post-id field is looked for among the
  table's columns and created as a number field when it is not there, after which the
  record is fetched again.
\<close>

definition sync_to_wordpress ::
  "world \<Rightarrow> string \<Rightarrow> string \<Rightarrow> string \<Rightarrow> string \<Rightarrow> string \<Rightarrow> unit res \<times> world" where
  "sync_to_wordpress w lang author_id_column record_id table_id base_id =
     (case getTable w table_id of
        Threw e \<Rightarrow> (Threw e, w)
      | Hung \<Rightarrow> (Hung, w)
      | Ok table \<Rightarrow>
          let record = selectRecordAsync table record_id;
              post_id_column = ''post_id_'' @ lang
          in (case (if \<not> list_ex (\<lambda>c. fst c = post_id_column) (t_columns table)
                    then (case createFieldAsync w table_id table post_id_column ''number'' of
                            Threw e \<Rightarrow> Threw e
                          | Hung \<Rightarrow> Hung
                          | Ok (table', w1) \<Rightarrow> Ok (selectRecordAsync table' record_id, w1))
                    else Ok (record, w)) of
                Threw e \<Rightarrow> (Threw e, w)
              | Hung \<Rightarrow> (Hung, w)
              | Ok (record, w1) \<Rightarrow>
                  sync_record w1 record lang author_id_column record_id table_id base_id
                    post_id_column))"

section \<open>What a request identifies\<close>

text \<open>The store, table and record identifiers a payload carries.\<close>

definition identifies :: "request \<Rightarrow> string \<Rightarrow> string \<Rightarrow> string \<Rightarrow> bool" where
  "identifies rq base_id table_id record_id =
     (payload rq ''base_id'' = Some (JStr base_id) \<and>
      payload rq ''table_id'' = Some (JStr table_id) \<and>
      payload rq ''record_id'' = Some (JStr record_id))"

text \<open>The fields of a world's table (none when there is no such table).\<close>

definition columns_of :: "world \<Rightarrow> string \<Rightarrow> (string \<times> string) list" where
  "columns_of w table_id = (case tables w table_id of None \<Rightarrow> [] | Some table \<Rightarrow> t_columns table)"

text \<open>A reply that lets a status-checking script go on: a response with a 2xx status.\<close>

fun succeeds :: "reply \<Rightarrow> bool" where
  "succeeds (Reply t status) = ok status"
| "succeeds (Rejects t m) = False"
| "succeeds Silent = False"

text \<open>What one translation sub-request comes to, by the endpoint's reply.\<close>

fun settle :: "reply \<Rightarrow> unit res" where
  "settle (Reply t status) =
     (if ok status then Ok () else Threw (Error (''HTTP error! status: '' @ show_nat status)))"
| "settle (Rejects t m) = Threw (FetchRejected m)"
| "settle Silent = Hung"

text \<open>Whether the fetch promise settles strictly before a timer of \<open>timeout\<close> milliseconds.\<close>

fun settles_before :: "nat \<Rightarrow> reply \<Rightarrow> bool" where
  "settles_before timeout (Reply t status) = (t < timeout)"
| "settles_before timeout (Rejects t m) = (t < timeout)"
| "settles_before timeout Silent = False"

section \<open>A sample base\<close>

text \<open>
  A base with a content table of two records, one filled and one blank, and a prompts
  table. The endpoint's reply to the \<open>k\<close>-th request is a parameter.
\<close>

definition filled_record :: airtable_record where
  "filled_record =
     \<lparr>rec_id = ''rec1'',
      cells = [''Template'' \<mapsto> Str ''castle'', ''Prompt'' \<mapsto> Str ''sunset'',
               ''Keywords'' \<mapsto> Str ''tea'', ''Link'' \<mapsto> Str ''https://example.org'',
               ''en'' \<mapsto> Str ''{}'', ''Author'' \<mapsto> Num 7]\<rparr>"

definition blank_record :: airtable_record where
  "blank_record = \<lparr>rec_id = ''rec2'', cells = Map.empty\<rparr>"

definition content_table :: airtable_table where
  "content_table =
     \<lparr>t_columns = [(''Template'', ''text''), (''Prompt'', ''text''), (''Keywords'', ''text''),
                   (''Link'', ''url''), (''en'', ''text''), (''Author'', ''number'')],
      t_records = [filled_record, blank_record],
      t_create_error = None\<rparr>"

definition prompts_table :: airtable_table where
  "prompts_table =
     \<lparr>t_columns = [(''Name'', ''text''), (''Prompt'', ''text'')],
      t_records = [\<lparr>rec_id = ''p1'',
                     cells = [''Name'' \<mapsto> Str ''summary'', ''Prompt'' \<mapsto> Str ''Summarise.'']\<rparr>],
      t_create_error = None\<rparr>"

definition sample_world :: "(nat \<Rightarrow> reply) \<Rightarrow> world" where
  "sample_world answer =
     \<lparr>tables = [''tbl1'' \<mapsto> content_table, ''Prompts'' \<mapsto> prompts_table],
      remote = (\<lambda>k rq. answer k),
      JSON_parse = (\<lambda>s. if s = ''{}'' then Some (JObj []) else None),
      requests = []\<rparr>"

definition three_languages :: "language list" where
  "three_languages =
     [\<lparr>column = ''fr'', name = ''French''\<rparr>,
      \<lparr>column = ''de'', name = ''German''\<rparr>,
      \<lparr>column = ''es'', name = ''Spanish''\<rparr>]"

section \<open>Basic facts\<close>

lemma show_nat_digit: "n < 10 \<Longrightarrow> show_nat n = [digit_char n]"
  by (simp add: show_nat.simps)

lemma show_nat_step: "10 \<le> n \<Longrightarrow> show_nat n = show_nat (n div 10) @ [digit_char (n mod 10)]"
  by (subst show_nat.simps) simp

lemmas show_nat_eval = show_nat_digit show_nat_step digit_char_def

lemma timeout_message:
  "''Request timed out after '' @ show_nat (TIMEOUT div 1000) @ '' seconds''
     = ''Request timed out after 120 seconds''"
  by (simp add: TIMEOUT_def show_nat_eval)

lemma getTable_Ok: "getTable w table_id = Ok table \<longleftrightarrow> tables w table_id = Some table"
  by (simp add: getTable_def split: option.splits)

lemma issued_same [simp]: "issued w w = []"
  by (simp add: issued_def)

lemma issued_append [simp]: "issued w (w\<lparr>requests := requests w @ rqs\<rparr>) = rqs"
  by (simp add: issued_def)

subsection \<open>The paths of \<^verbatim>\<open>create_map_image\<close>\<close>

lemma create_map_image_invalid:
  assumes "getTable w table_id = Ok table"
    and "selectRecordsAsync table [record_id] = record # rest"
    and "falsy (getCellValue record tpl_column) \<or> falsy (getCellValue record prompt_column)"
  shows "create_map_image w tpl_column prompt_column output_column record_id table_id base_id
         = (Threw (Error ''Missing template or prompt''), w)"
  using assms by (simp add: create_map_image_def Let_def)

lemma create_map_image_valid:
  assumes "getTable w table_id = Ok table"
    and "selectRecordsAsync table [record_id] = record # rest"
    and "\<not> falsy (getCellValue record tpl_column)"
    and "\<not> falsy (getCellValue record prompt_column)"
  shows "create_map_image w tpl_column prompt_column output_column record_id table_id base_id
         = (let rq = map_image_request (getCellValue record tpl_column)
                       (getCellValue record prompt_column) output_column record_id table_id base_id;
                w' = w\<lparr>requests := requests w @ [rq]\<rparr>
            in case race TIMEOUT (Error ''Request timed out after 120 seconds'')
                      (remote w (length (requests w)) rq) of
                 Threw e \<Rightarrow> (Threw e, w')
               | Hung \<Rightarrow> (Hung, w')
               | Ok status \<Rightarrow>
                   if ok status then (Ok (), w')
                   else (Threw (Error (''API request failed with status '' @ show_nat status)), w'))"
  using assms
  unfolding create_map_image_def timeout_message
  by (simp add: Let_def fetch_def split: res.splits)

lemma create_map_image_issued:
  "issued w (snd (create_map_image w tpl_column prompt_column output_column record_id table_id base_id)) = []
   \<or> (\<exists>tpl prompt.
         issued w (snd (create_map_image w tpl_column prompt_column output_column record_id table_id base_id))
         = [map_image_request tpl prompt output_column record_id table_id base_id])"
  unfolding create_map_image_def
  by (auto simp add: Let_def fetch_def getTable_def split: res.splits list.splits option.splits)

subsection \<open>The paths of \<^verbatim>\<open>ai_generate\<close>\<close>

lemma getSystemPrompt_none:
  assumes "getTable w PROMPTS_TABLE_NAME = Ok promptsTable"
    and "\<forall>r\<in>set (t_records promptsTable). getCellValueAsString r ''Name'' \<noteq> promptName"
  shows "getSystemPrompt w promptName = Ok Null"
proof -
  from assms(2)
  have "filter (\<lambda>r. getCellValueAsString r ''Name'' = promptName) (t_records promptsTable) = []"
    by (simp add: filter_empty_conv)
  with assms(1) show ?thesis by (simp add: getSystemPrompt_def)
qed

lemma ai_generate_no_prompt:
  assumes "getSystemPrompt w system_prompt_name = Ok system_prompt"
    and "falsy system_prompt"
  shows "ai_generate w input_columns system_prompt_name output_column record_id table_id base_id
           model fmt
         = (Threw (Error (''Failed to retrieve system prompt: '' @ system_prompt_name)), w)"
  using assms by (simp add: ai_generate_def)

lemma ai_generate_valid:
  assumes "getSystemPrompt w system_prompt_name = Ok system_prompt"
    and "\<not> falsy system_prompt"
    and "getTable w table_id = Ok table"
    and "selectRecordAsync table record_id = Some record"
  shows "ai_generate w input_columns system_prompt_name output_column record_id table_id base_id
           model fmt
         = (let rq = ai_generate_request base_id table_id record_id output_column model system_prompt
                       (join [CHR 0x0A] (map (xml_wrap record) input_columns)) fmt;
                w' = w\<lparr>requests := requests w @ [rq]\<rparr>
            in case await (remote w (length (requests w)) rq) of
                 Threw e \<Rightarrow> (Threw e, w')
               | Hung \<Rightarrow> (Hung, w')
               | Ok status \<Rightarrow> (Ok (), w'))"
  using assms
  by (simp add: ai_generate_def Let_def fetch_def split: res.splits)

lemma ai_generate_issued:
  "issued w (snd (ai_generate w input_columns system_prompt_name output_column record_id table_id
                    base_id model fmt)) = []
   \<or> (\<exists>sp msg.
         issued w (snd (ai_generate w input_columns system_prompt_name output_column record_id table_id
                          base_id model fmt))
         = [ai_generate_request base_id table_id record_id output_column model sp msg fmt])"
  unfolding ai_generate_def
  by (auto simp add: Let_def fetch_def split: res.splits list.splits option.splits)

subsection \<open>The loop of \<^verbatim>\<open>translate_i18n\<close>\<close>

lemma translateToLanguage_eq:
  "translateToLanguage b t r m u w l =
     (settle (remote w (length (requests w)) (translate_request b t r m u l)),
      w\<lparr>requests := requests w @ [translate_request b t r m u l]\<rparr>)"
  by (cases "remote w (length (requests w)) (translate_request b t r m u l)")
     (simp_all add: translateToLanguage_def fetch_def)

lemma settle_Ok: "succeeds rp \<Longrightarrow> settle rp = Ok ()"
  by (cases rp) simp_all

lemma settle_not_Ok: "\<not> succeeds rp \<Longrightarrow> settle rp \<noteq> Ok u"
  by (cases rp) simp_all

lemma translate_loop_all_ok:
  "(\<forall>i<length ls. succeeds (remote w (length (requests w) + i) (translate_request b t r m u (ls ! i))))
   \<Longrightarrow> translate_loop b t r m u w ls
       = (Ok (), w\<lparr>requests := requests w @ map (translate_request b t r m u) ls\<rparr>)"
proof (induction ls arbitrary: w)
  case Nil
  then show ?case by simp
next
  case (Cons l ls)
  let ?w' = "w\<lparr>requests := requests w @ [translate_request b t r m u l]\<rparr>"
  from Cons.prems have "succeeds (remote w (length (requests w)) (translate_request b t r m u l))"
    by fastforce
  then have step: "translateToLanguage b t r m u w l = (Ok (), ?w')"
    by (simp add: translateToLanguage_eq settle_Ok)
  have "\<forall>i<length ls. succeeds (remote ?w' (length (requests ?w') + i)
                                  (translate_request b t r m u (ls ! i)))"
  proof (intro allI impI)
    fix i assume "i < length ls"
    then have "Suc i < length (l # ls)" by simp
    with Cons.prems
    have "succeeds (remote w (length (requests w) + Suc i)
                      (translate_request b t r m u ((l # ls) ! Suc i)))"
      by blast
    then show "succeeds (remote ?w' (length (requests ?w') + i) (translate_request b t r m u (ls ! i)))"
      by simp
  qed
  from Cons.IH[OF this] step show ?case by simp
qed

lemma translate_loop_stops:
  "k < length ls
   \<Longrightarrow> (\<forall>i<k. succeeds (remote w (length (requests w) + i) (translate_request b t r m u (ls ! i))))
   \<Longrightarrow> \<not> succeeds (remote w (length (requests w) + k) (translate_request b t r m u (ls ! k)))
   \<Longrightarrow> translate_loop b t r m u w ls
       = (settle (remote w (length (requests w) + k) (translate_request b t r m u (ls ! k))),
          w\<lparr>requests := requests w @ map (translate_request b t r m u) (take (Suc k) ls)\<rparr>)"
proof (induction ls arbitrary: w k)
  case Nil
  then show ?case by simp
next
  case (Cons l ls)
  let ?rq = "translate_request b t r m u l"
  let ?w' = "w\<lparr>requests := requests w @ [?rq]\<rparr>"
  show ?case
  proof (cases k)
    case 0
    with Cons.prems(3) have "\<not> succeeds (remote w (length (requests w)) ?rq)" by simp
    then show ?thesis using 0
      by (cases "remote w (length (requests w)) ?rq") (simp_all add: translateToLanguage_eq)
  next
    case (Suc j)
    with Cons.prems(2) have "succeeds (remote w (length (requests w)) ?rq)" by fastforce
    then have step: "translateToLanguage b t r m u w l = (Ok (), ?w')"
      by (simp add: translateToLanguage_eq settle_Ok)
    have j: "j < length ls" using Cons.prems(1) Suc by simp
    have before: "\<forall>i<j. succeeds (remote ?w' (length (requests ?w') + i)
                                     (translate_request b t r m u (ls ! i)))"
    proof (intro allI impI)
      fix i assume "i < j"
      then have "Suc i < k" using Suc by simp
      with Cons.prems(2)
      have "succeeds (remote w (length (requests w) + Suc i)
                        (translate_request b t r m u ((l # ls) ! Suc i)))"
        by blast
      then show "succeeds (remote ?w' (length (requests ?w') + i) (translate_request b t r m u (ls ! i)))"
        by simp
    qed
    have at: "\<not> succeeds (remote ?w' (length (requests ?w') + j) (translate_request b t r m u (ls ! j)))"
      using Cons.prems(3) Suc by simp
    from Cons.IH[OF j before at] step Suc show ?thesis by simp
  qed
qed

lemma translate_loop_issued:
  "\<exists>k\<le>length ls. requests (snd (translate_loop b t r m u w ls))
      = requests w @ map (translate_request b t r m u) (take k ls)"
proof (induction ls arbitrary: w)
  case Nil
  then show ?case by simp
next
  case (Cons l ls)
  let ?rq = "translate_request b t r m u l"
  let ?w' = "w\<lparr>requests := requests w @ [?rq]\<rparr>"
  show ?case
  proof (cases "succeeds (remote w (length (requests w)) ?rq)")
    case True
    then have step: "translateToLanguage b t r m u w l = (Ok (), ?w')"
      by (simp add: translateToLanguage_eq settle_Ok)
    from Cons.IH[of ?w'] obtain k where "k \<le> length ls"
      and "requests (snd (translate_loop b t r m u ?w' ls))
             = requests ?w' @ map (translate_request b t r m u) (take k ls)"
      by blast
    then have "Suc k \<le> length (l # ls) \<and> requests (snd (translate_loop b t r m u w (l # ls)))
        = requests w @ map (translate_request b t r m u) (take (Suc k) (l # ls))"
      using step by simp
    then show ?thesis by blast
  next
    case False
    then have "requests (snd (translate_loop b t r m u w (l # ls)))
        = requests w @ map (translate_request b t r m u) (take (Suc 0) (l # ls))"
      by (cases "remote w (length (requests w)) ?rq") (simp_all add: translateToLanguage_eq)
    moreover have "Suc 0 \<le> length (l # ls)" by simp
    ultimately show ?thesis by blast
  qed
qed

subsection \<open>The paths of \<^verbatim>\<open>google_search\<close> and \<^verbatim>\<open>crawl_url_content\<close>\<close>

lemma google_search_invalid:
  assumes "getTable w table_id = Ok table"
    and "selectRecordAsync table record_id = Some record"
    and "getCellValueAsString record input_column = []"
  shows "google_search w input_column output_column record_id table_id base_id
         = (Threw (Error ''No keywords found''), w)"
  using assms by (simp add: google_search_def Let_def)

lemma google_search_valid:
  assumes "getTable w table_id = Ok table"
    and "selectRecordAsync table record_id = Some record"
    and "getCellValueAsString record input_column \<noteq> []"
  shows "google_search w input_column output_column record_id table_id base_id
         = (let rq = search_request base_id table_id record_id output_column
                       (getCellValueAsString record input_column);
                w' = w\<lparr>requests := requests w @ [rq]\<rparr>
            in case await (remote w (length (requests w)) rq) of
                 Threw e \<Rightarrow> (Threw e, w')
               | Hung \<Rightarrow> (Hung, w')
               | Ok status \<Rightarrow> (Ok (), w'))"
  using assms
  by (simp add: google_search_def Let_def fetch_def split: res.splits)

lemma google_search_issued:
  "issued w (snd (google_search w input_column output_column record_id table_id base_id)) = []
   \<or> (\<exists>keywords.
         issued w (snd (google_search w input_column output_column record_id table_id base_id))
         = [search_request base_id table_id record_id output_column keywords])"
  unfolding google_search_def
  by (auto simp add: Let_def fetch_def getTable_def split: res.splits list.splits option.splits)

lemma crawl_url_content_invalid:
  assumes "getTable w table_id = Ok table"
    and "selectRecordsAsync table [record_id] = record # rest"
    and "falsy (getCellValue record input_column)"
  shows "crawl_url_content w input_column output_column record_id table_id base_id
         = (Threw (Error ''No URL found''), w)"
  using assms by (simp add: crawl_url_content_def Let_def)

lemma crawl_url_content_valid:
  assumes "getTable w table_id = Ok table"
    and "selectRecordsAsync table [record_id] = record # rest"
    and "\<not> falsy (getCellValue record input_column)"
  shows "crawl_url_content w input_column output_column record_id table_id base_id
         = (let rq = crawl_request base_id table_id record_id output_column
                       (getCellValue record input_column);
                w' = w\<lparr>requests := requests w @ [rq]\<rparr>
            in case await (remote w (length (requests w)) rq) of
                 Threw e \<Rightarrow> (Threw e, w')
               | Hung \<Rightarrow> (Hung, w')
               | Ok status \<Rightarrow>
                   if ok status then (Ok (), w')
                   else (Threw (Error (''API request failed with status '' @ show_nat status)), w'))"
  using assms
  by (simp add: crawl_url_content_def Let_def fetch_def split: res.splits)

lemma crawl_url_content_issued:
  "issued w (snd (crawl_url_content w input_column output_column record_id table_id base_id)) = []
   \<or> (\<exists>u. issued w (snd (crawl_url_content w input_column output_column record_id table_id base_id))
        = [crawl_request base_id table_id record_id output_column u])"
  unfolding crawl_url_content_def
  by (auto simp add: Let_def fetch_def getTable_def split: res.splits list.splits option.splits)

subsection \<open>The paths of \<^verbatim>\<open>sync_to_wordpress\<close>\<close>

lemma sync_record_tables:
  "tables (snd (sync_record w1 fetched lang author_id_column record_id table_id base_id pid))
     = tables w1"
  unfolding sync_record_def
  by (simp add: Let_def fetch_def split: res.splits option.splits)

lemma sync_record_issued:
  "issued w1 (snd (sync_record w1 fetched lang author_id_column record_id table_id base_id pid)) = []
   \<or> (\<exists>parsed post_id author_id post_id_en.
        issued w1 (snd (sync_record w1 fetched lang author_id_column record_id table_id base_id pid))
        = [sync_request parsed post_id author_id post_id_en lang base_id table_id record_id pid])"
  unfolding sync_record_def
  by (auto simp add: Let_def fetch_def split: res.splits option.splits)

lemma sync_record_invalid:
  assumes "falsy (getCellValue record lang) \<or> falsy (getCellValue record author_id_column)"
  shows "sync_record w1 (Some record) lang author_id_column record_id table_id base_id pid
           = (Threw (Error (if falsy (getCellValue record lang) then ''No content found''
                            else ''No author ID found'')), w1)"
  using assms unfolding sync_record_def
  by (auto simp add: Let_def)

lemma sync_record_valid:
  assumes "\<not> falsy (getCellValue record lang)"
    and "\<not> falsy (getCellValue record author_id_column)"
    and "JSON_parse w1 (js_String (getCellValue record lang)) = Some parsed"
    and "parsed \<noteq> JNull"
  shows "sync_record w1 (Some record) lang author_id_column record_id table_id base_id pid
         = (let rq = sync_request parsed (getCellValue record pid)
                       (getCellValue record author_id_column) (getCellValue record ''post_id_en'')
                       lang base_id table_id record_id pid;
                w2 = w1\<lparr>requests := requests w1 @ [rq]\<rparr>
            in case await (remote w1 (length (requests w1)) rq) of
                 Threw e \<Rightarrow> (Threw e, w2)
               | Hung \<Rightarrow> (Hung, w2)
               | Ok status \<Rightarrow>
                   if ok status then (Ok (), w2)
                   else (Threw (Error (''API request failed with status '' @ show_nat status)), w2))"
  using assms unfolding sync_record_def
  by (simp add: Let_def fetch_def split: res.splits)

lemma sync_field_present:
  assumes "getTable w table_id = Ok table"
    and "list_ex (\<lambda>c. fst c = ''post_id_'' @ lang) (t_columns table)"
  shows "sync_to_wordpress w lang author_id_column record_id table_id base_id
         = sync_record w (selectRecordAsync table record_id) lang author_id_column record_id
             table_id base_id (''post_id_'' @ lang)"
  using assms by (simp add: sync_to_wordpress_def Let_def)

lemma sync_field_created:
  assumes "getTable w table_id = Ok table"
    and "\<not> list_ex (\<lambda>c. fst c = ''post_id_'' @ lang) (t_columns table)"
    and "t_create_error table = None"
  shows "sync_to_wordpress w lang author_id_column record_id table_id base_id
         = sync_record
             (w\<lparr>tables := (tables w)(table_id \<mapsto>
                   table\<lparr>t_columns := t_columns table @ [(''post_id_'' @ lang, ''number'')]\<rparr>)\<rparr>)
             (selectRecordAsync table record_id) lang author_id_column record_id
             table_id base_id (''post_id_'' @ lang)"
  using assms
  by (simp add: sync_to_wordpress_def Let_def createFieldAsync_def selectRecordAsync_def)

lemma sync_field_refused:
  assumes "getTable w table_id = Ok table"
    and "\<not> list_ex (\<lambda>c. fst c = ''post_id_'' @ lang) (t_columns table)"
    and "t_create_error table = Some m"
  shows "sync_to_wordpress w lang author_id_column record_id table_id base_id
         = (Threw (CreateFieldFailed m), w)"
  using assms by (simp add: sync_to_wordpress_def Let_def createFieldAsync_def)

lemma sync_no_table:
  assumes "tables w table_id = None"
  shows "sync_to_wordpress w lang author_id_column record_id table_id base_id
         = (Threw (TableNotFound table_id), w)"
  using assms by (simp add: sync_to_wordpress_def getTable_def)

lemma sync_issued:
  "issued w (snd (sync_to_wordpress w lang author_id_column record_id table_id base_id)) = []
   \<or> (\<exists>parsed post_id author_id post_id_en.
        issued w (snd (sync_to_wordpress w lang author_id_column record_id table_id base_id))
        = [sync_request parsed post_id author_id post_id_en lang base_id table_id record_id
             (''post_id_'' @ lang)])"
proof (cases "tables w table_id")
  case None
  then show ?thesis by (simp add: sync_no_table)
next
  case (Some table)
  then have tbl: "getTable w table_id = Ok table" by (simp add: getTable_Ok)
  show ?thesis
  proof (cases "list_ex (\<lambda>c. fst c = ''post_id_'' @ lang) (t_columns table)")
    case True
    show ?thesis
      using sync_record_issued[of w "selectRecordAsync table record_id" lang author_id_column
              record_id table_id base_id "''post_id_'' @ lang"]
      by (simp add: sync_field_present[OF tbl True])
  next
    case False
    show ?thesis
    proof (cases "t_create_error table")
      case None
      let ?w1 = "w\<lparr>tables := (tables w)(table_id \<mapsto>
                   table\<lparr>t_columns := t_columns table @ [(''post_id_'' @ lang, ''number'')]\<rparr>)\<rparr>"
      show ?thesis
        using sync_record_issued[of ?w1 "selectRecordAsync table record_id" lang author_id_column
                record_id table_id base_id "''post_id_'' @ lang"]
        by (simp add: sync_field_created[OF tbl False None] issued_def)
    next
      case (Some m)
      then show ?thesis by (simp add: sync_field_refused[OF tbl False Some])
    qed
  qed
qed

section \<open>Properties of the scripts\<close>

lemmas sample_defs =
  sample_world_def content_table_def prompts_table_def filled_record_def blank_record_def
  getTable_def selectRecordAsync_def selectRecordsAsync_def getCellValue_def getCellValueAsString_def
  PROMPTS_TABLE_NAME_def

subsection \<open>The system prompt lookup\<close>

text \<open>
  C7: in \<^verbatim>\<open>ai_generate\<close>, when no record of the prompts table has a \<^verbatim>\<open>Name\<close> cell
  that reads as the given prompt name, the call throws the error with message
  \<^verbatim>\<open>Failed to retrieve system prompt: <name>\<close>; the world is left as it was, so no HTTP
  request is issued.
\<close>

theorem missing_system_prompt_fails_before_request:
  assumes "getTable w PROMPTS_TABLE_NAME = Ok promptsTable"
    and "system_prompt_name \<notin> (\<lambda>r. getCellValueAsString r ''Name'') ` set (t_records promptsTable)"
  shows "ai_generate w input_columns system_prompt_name output_column record_id table_id base_id
           model openai_json_format
         = (Threw (Error (''Failed to retrieve system prompt: '' @ system_prompt_name)), w)
         \<and> issued w (snd (ai_generate w input_columns system_prompt_name output_column record_id
                             table_id base_id model openai_json_format)) = []"
proof -
  from assms(2)
  have "\<forall>r\<in>set (t_records promptsTable). getCellValueAsString r ''Name'' \<noteq> system_prompt_name"
    by auto
  from getSystemPrompt_none[OF assms(1) this]
  have "getSystemPrompt w system_prompt_name = Ok Null" .
  then have "ai_generate w input_columns system_prompt_name output_column record_id table_id base_id
           model openai_json_format
         = (Threw (Error (''Failed to retrieve system prompt: '' @ system_prompt_name)), w)"
    by (rule ai_generate_no_prompt) simp
  then show ?thesis by simp
qed

text \<open>On the sample base, whose only prompt is named \<^verbatim>\<open>summary\<close>, asking for \<^verbatim>\<open>outline\<close>.\<close>

theorem missing_system_prompt_witness:
  "getTable (sample_world (\<lambda>k. Reply 350 200)) PROMPTS_TABLE_NAME = Ok prompts_table
   \<and> map (\<lambda>r. getCellValueAsString r ''Name'') (t_records prompts_table) = [''summary'']
   \<and> ai_generate (sample_world (\<lambda>k. Reply 350 200)) [''Keywords''] ''outline'' ''Draft'' ''rec1''
        ''tbl1'' ''base1'' ''gpt-4o'' False
      = (Threw (Error ''Failed to retrieve system prompt: outline''), sample_world (\<lambda>k. Reply 350 200))
   \<and> issued (sample_world (\<lambda>k. Reply 350 200))
        (snd (ai_generate (sample_world (\<lambda>k. Reply 350 200)) [''Keywords''] ''outline'' ''Draft''
                ''rec1'' ''tbl1'' ''base1'' ''gpt-4o'' False)) = []"
  using missing_system_prompt_fails_before_request
          [of "sample_world (\<lambda>k. Reply 350 200)" prompts_table "''outline''" "[''Keywords'']"
              "''Draft''" "''rec1''" "''tbl1''" "''base1''" "''gpt-4o''" False]
  by (simp add: sample_defs)

subsection \<open>The user message\<close>

text \<open>
  C9: in \<^verbatim>\<open>ai_generate\<close>, once the system prompt is found and the record is there, the
  one request issued has as \<^verbatim>\<open>user_msg\<close> the fragments \<^verbatim>\<open><column>value</column>\<close>,
  one per input column in list order, joined by newlines, where the value is the cell
  read as a string: nothing for an empty cell, the text of a text cell, the decimal
  digits of a number.
\<close>

theorem user_msg_wraps_columns:
  assumes "getSystemPrompt w system_prompt_name = Ok system_prompt"
    and "\<not> falsy system_prompt"
    and "getTable w table_id = Ok table"
    and "selectRecordAsync table record_id = Some record"
  shows "map (\<lambda>rq. payload rq ''user_msg'')
           (issued w (snd (ai_generate w input_columns system_prompt_name output_column record_id
                             table_id base_id model openai_json_format)))
         = [Some (JStr (join [CHR 0x0A]
              (map (\<lambda>c. ''<'' @ c @ ''>'' @
                        (case getCellValue record c of
                           Null \<Rightarrow> []
                         | Str s \<Rightarrow> s
                         | Num n \<Rightarrow> show_int n) @
                        ''</'' @ c @ ''>'')
                 input_columns)))]"
proof -
  have frag: "xml_wrap record = (\<lambda>c. ''<'' @ c @ ''>'' @
                        (case getCellValue record c of
                           Null \<Rightarrow> []
                         | Str s \<Rightarrow> s
                         | Num n \<Rightarrow> show_int n) @
                        ''</'' @ c @ ''>'')"
    by (rule ext) (simp add: xml_wrap_def getCellValueAsString_def split: cell.splits)
  show ?thesis
    unfolding ai_generate_valid[OF assms] frag[symmetric]
    by (simp add: Let_def payload_def ai_generate_request_def post_def split: res.splits)
qed

text \<open>
  On the sample base, with a text cell, a column the record has no cell for, and a
  number cell.
\<close>

theorem user_msg_wraps_columns_witness:
  "getSystemPrompt (sample_world (\<lambda>k. Reply 350 200)) ''summary'' = Ok (Str ''Summarise.'')
   \<and> map (\<lambda>rq. payload rq ''user_msg'')
        (issued (sample_world (\<lambda>k. Reply 350 200))
           (snd (ai_generate (sample_world (\<lambda>k. Reply 350 200)) [''Keywords'', ''Notes'', ''Author'']
                   ''summary'' ''Draft'' ''rec1'' ''tbl1'' ''base1'' ''gpt-4o'' False)))
      = [Some (JStr (''<Keywords>tea</Keywords>'' @ [CHR 0x0A] @ ''<Notes></Notes>'' @ [CHR 0x0A] @
                     ''<Author>7</Author>''))]"
  using user_msg_wraps_columns
          [of "sample_world (\<lambda>k. Reply 350 200)" "''summary''" "Str ''Summarise.''" "''tbl1''"
              content_table "''rec1''" filled_record "[''Keywords'', ''Notes'', ''Author'']"
              "''Draft''" "''base1''" "''gpt-4o''" False]
  by (simp add: sample_defs getSystemPrompt_def show_int_def show_nat_eval)

subsection \<open>Facts about the sample base\<close>

lemma sample_getTable: "getTable (sample_world answer) ''tbl1'' = Ok content_table"
  by (simp add: getTable_def sample_world_def)

lemma sample_rec1: "selectRecordAsync content_table ''rec1'' = Some filled_record"
  by (simp add: selectRecordAsync_def content_table_def filled_record_def)

lemma sample_rec2: "selectRecordAsync content_table ''rec2'' = Some blank_record"
  by (simp add: selectRecordAsync_def content_table_def filled_record_def blank_record_def)

lemma sample_recs1: "selectRecordsAsync content_table [''rec1''] = filled_record # []"
  by (simp add: selectRecordsAsync_def content_table_def filled_record_def blank_record_def)

lemma sample_recs2: "selectRecordsAsync content_table [''rec2''] = blank_record # []"
  by (simp add: selectRecordsAsync_def content_table_def filled_record_def blank_record_def)

lemma sample_no_post_id: "\<not> list_ex (\<lambda>c. fst c = ''post_id_'' @ ''en'') (t_columns content_table)"
  by (simp add: content_table_def)

lemma sample_creatable: "t_create_error content_table = None"
  by (simp add: content_table_def)

lemma sample_remote: "remote (sample_world answer) k rq = answer k"
  by (simp add: sample_world_def)

lemma sample_requests: "requests (sample_world answer) = []"
  by (simp add: sample_world_def)

subsection \<open>The timeout race\<close>

text \<open>
  C4: in \<^verbatim>\<open>create_map_image\<close>, the only script with a timeout (120000 milliseconds),
  on a valid input: when the fetch does not settle before the timer, the call throws the
  error \<^verbatim>\<open>Request timed out after 120 seconds\<close>; when the endpoint answers with a 2xx
  status at any time before the timer, however late, the call returns normally.
\<close>

theorem map_image_timeout_race:
  assumes "getTable w table_id = Ok table"
    and "selectRecordsAsync table [record_id] = record # rest"
    and "\<not> falsy (getCellValue record tpl_column)"
    and "\<not> falsy (getCellValue record prompt_column)"
    and "rp = remote w (length (requests w))
                (map_image_request (getCellValue record tpl_column) (getCellValue record prompt_column)
                   output_column record_id table_id base_id)"
  shows "(\<not> settles_before TIMEOUT rp \<longrightarrow>
            fst (create_map_image w tpl_column prompt_column output_column record_id table_id base_id)
              = Threw (Error ''Request timed out after 120 seconds''))
         \<and> (\<forall>t status. rp = Reply t status \<and> t < TIMEOUT \<and> ok status \<longrightarrow>
               fst (create_map_image w tpl_column prompt_column output_column record_id table_id base_id)
                 = Ok ())
         \<and> TIMEOUT = 120000"
proof -
  from create_map_image_valid[OF assms(1-4)]
  have "fst (create_map_image w tpl_column prompt_column output_column record_id table_id base_id)
        = (case race TIMEOUT (Error ''Request timed out after 120 seconds'') rp of
             Threw e \<Rightarrow> Threw e
           | Hung \<Rightarrow> Hung
           | Ok status \<Rightarrow>
               if ok status then Ok ()
               else Threw (Error (''API request failed with status '' @ show_nat status)))"
    by (simp add: Let_def assms(5) split: res.splits)
  then show ?thesis
    by (cases rp) (simp_all add: TIMEOUT_def)
qed

text \<open>
  On the sample base: an answer at 120000 ms and no answer at all time out, an answer
  at 119999 ms with status 200 succeeds.
\<close>

theorem map_image_timeout_race_witness:
  "fst (create_map_image (sample_world (\<lambda>k. Reply 120000 200)) ''Template'' ''Prompt'' ''Map''
          ''rec1'' ''tbl1'' ''base1'') = Threw (Error ''Request timed out after 120 seconds'')
   \<and> fst (create_map_image (sample_world (\<lambda>k. Silent)) ''Template'' ''Prompt'' ''Map''
          ''rec1'' ''tbl1'' ''base1'') = Threw (Error ''Request timed out after 120 seconds'')
   \<and> fst (create_map_image (sample_world (\<lambda>k. Reply 119999 200)) ''Template'' ''Prompt'' ''Map''
          ''rec1'' ''tbl1'' ''base1'') = Ok ()"
proof -
  have tpl: "\<not> falsy (getCellValue filled_record ''Template'')"
    and prompt: "\<not> falsy (getCellValue filled_record ''Prompt'')"
    by (simp_all add: getCellValue_def filled_record_def)
  note race = map_image_timeout_race[OF sample_getTable sample_recs1 tpl prompt refl]
  have late: "fst (create_map_image (sample_world (\<lambda>k. Reply 120000 200)) ''Template'' ''Prompt''
                     ''Map'' ''rec1'' ''tbl1'' ''base1'')
              = Threw (Error ''Request timed out after 120 seconds'')"
    using race[of "\<lambda>k. Reply 120000 200" "''Map''" "''base1''"]
    by (simp add: sample_remote TIMEOUT_def)
  have never: "fst (create_map_image (sample_world (\<lambda>k. Silent)) ''Template'' ''Prompt''
                     ''Map'' ''rec1'' ''tbl1'' ''base1'')
              = Threw (Error ''Request timed out after 120 seconds'')"
    using race[of "\<lambda>k. Silent" "''Map''" "''base1''"]
    by (simp add: sample_remote)
  have early: "fst (create_map_image (sample_world (\<lambda>k. Reply 119999 200)) ''Template'' ''Prompt''
                     ''Map'' ''rec1'' ''tbl1'' ''base1'') = Ok ()"
    using race[of "\<lambda>k. Reply 119999 200" "''Map''" "''base1''"]
    by (simp add: sample_remote TIMEOUT_def ok_def)
  from late never early show ?thesis by simp
qed

subsection \<open>Provisioning the post-id field\<close>

lemma filter_absent:
  "\<not> list_ex (\<lambda>c. fst c = pid) cols \<Longrightarrow> filter (\<lambda>c. fst c = pid) (cols @ [(pid, ty)]) = [(pid, ty)]"
  by (simp add: list_ex_iff filter_empty_conv)

text \<open>
  C8: when the table has no field \<^verbatim>\<open>post_id_<lang>\<close> and the field can be created,
  two calls of \<^verbatim>\<open>sync_to_wordpress\<close> in a row create it once: after the first call
  the table's fields are the old ones followed by the new number field, and the second
  call, finding it, leaves the fields as they are, so exactly one field has that name.
\<close>

theorem post_id_field_created_once:
  assumes "getTable w table_id = Ok table"
    and "\<not> list_ex (\<lambda>c. fst c = ''post_id_'' @ lang) (t_columns table)"
    and "t_create_error table = None"
    and "w1 = snd (sync_to_wordpress w lang author_id_column record_id table_id base_id)"
    and "w2 = snd (sync_to_wordpress w1 lang author_id_column record_id table_id base_id)"
  shows "columns_of w1 table_id = t_columns table @ [(''post_id_'' @ lang, ''number'')]
         \<and> columns_of w2 table_id = columns_of w1 table_id
         \<and> length (filter (\<lambda>c. fst c = ''post_id_'' @ lang) (columns_of w2 table_id)) = 1"
proof -
  let ?pid = "''post_id_'' @ lang"
  let ?table' = "table\<lparr>t_columns := t_columns table @ [(?pid, ''number'')]\<rparr>"
  have t1: "tables w1 = (tables w)(table_id \<mapsto> ?table')"
    unfolding assms(4) sync_field_created[OF assms(1-3)] sync_record_tables by simp
  then have c1: "columns_of w1 table_id = t_columns table @ [(?pid, ''number'')]"
    by (simp add: columns_of_def)
  from t1 have tbl1: "getTable w1 table_id = Ok ?table'"
    by (simp add: getTable_Ok)
  have present: "list_ex (\<lambda>c. fst c = ?pid) (t_columns ?table')"
    by (simp add: list_ex_iff)
  have "tables w2 = tables w1"
    unfolding assms(5) sync_field_present[OF tbl1 present] sync_record_tables ..
  then have c2: "columns_of w2 table_id = columns_of w1 table_id"
    by (simp add: columns_of_def)
  have "length (filter (\<lambda>c. fst c = ?pid) (t_columns table @ [(?pid, ''number'')])) = 1"
    unfolding filter_absent[OF assms(2)] by simp
  with c1 c2 show ?thesis by simp
qed

text \<open>On the sample base, whose content table has no \<^verbatim>\<open>post_id_en\<close>.\<close>

theorem post_id_field_created_once_witness:
  "map fst (columns_of (sample_world (\<lambda>k. Reply 350 200)) ''tbl1'')
     = [''Template'', ''Prompt'', ''Keywords'', ''Link'', ''en'', ''Author'']
   \<and> map fst (columns_of
        (snd (sync_to_wordpress
           (snd (sync_to_wordpress (sample_world (\<lambda>k. Reply 350 200)) ''en'' ''Author'' ''rec1'' ''tbl1'' ''base1''))
           ''en'' ''Author'' ''rec1'' ''tbl1'' ''base1'')) ''tbl1'')
     = [''Template'', ''Prompt'', ''Keywords'', ''Link'', ''en'', ''Author'', ''post_id_en'']"
proof -
  have before: "map fst (columns_of (sample_world (\<lambda>k. Reply 350 200)) ''tbl1'')
     = [''Template'', ''Prompt'', ''Keywords'', ''Link'', ''en'', ''Author'']"
    by (simp add: columns_of_def sample_world_def content_table_def)
  from post_id_field_created_once[OF sample_getTable sample_no_post_id sample_creatable refl refl,
         of "\<lambda>k. Reply 350 200" "''Author''" "''rec1''" "''base1''"]
  have "map fst (columns_of
        (snd (sync_to_wordpress
           (snd (sync_to_wordpress (sample_world (\<lambda>k. Reply 350 200)) ''en'' ''Author'' ''rec1'' ''tbl1'' ''base1''))
           ''en'' ''Author'' ''rec1'' ''tbl1'' ''base1'')) ''tbl1'')
     = map fst (t_columns content_table @ [(''post_id_'' @ ''en'', ''number'')])"
    by simp
  then show ?thesis using before by (simp add: content_table_def)
qed

text \<open>
  C10: \<^verbatim>\<open>sync_to_wordpress\<close> is not atomic on a validation failure: when the field
  \<^verbatim>\<open>post_id_<lang>\<close> is absent (and can be created) and the record's content or
  author cell is empty, the call throws the validation error, issues no HTTP request,
  and still leaves the table with the new field.
\<close>

theorem sync_creates_field_before_validation_error:
  assumes "getTable w table_id = Ok table"
    and "\<not> list_ex (\<lambda>c. fst c = ''post_id_'' @ lang) (t_columns table)"
    and "t_create_error table = None"
    and "selectRecordAsync table record_id = Some record"
    and "falsy (getCellValue record lang) \<or> falsy (getCellValue record author_id_column)"
    and "w' = snd (sync_to_wordpress w lang author_id_column record_id table_id base_id)"
  shows "fst (sync_to_wordpress w lang author_id_column record_id table_id base_id)
           = Threw (Error (if falsy (getCellValue record lang) then ''No content found''
                           else ''No author ID found''))
         \<and> columns_of w' table_id = t_columns table @ [(''post_id_'' @ lang, ''number'')]
         \<and> columns_of w' table_id \<noteq> columns_of w table_id
         \<and> issued w w' = []"
proof -
  have "columns_of w table_id = t_columns table"
    using assms(1) by (simp add: columns_of_def getTable_Ok)
  then show ?thesis
    unfolding assms(6) sync_field_created[OF assms(1-3)] assms(4) sync_record_invalid[OF assms(5)]
    by (simp add: columns_of_def issued_def)
qed

text \<open>On the sample base, with the blank record.\<close>

theorem sync_creates_field_before_validation_error_witness:
  "fst (sync_to_wordpress (sample_world (\<lambda>k. Reply 350 200)) ''en'' ''Author'' ''rec2'' ''tbl1'' ''base1'')
     = Threw (Error ''No content found'')
   \<and> map fst (columns_of
        (snd (sync_to_wordpress (sample_world (\<lambda>k. Reply 350 200)) ''en'' ''Author'' ''rec2'' ''tbl1'' ''base1''))
        ''tbl1'')
     = [''Template'', ''Prompt'', ''Keywords'', ''Link'', ''en'', ''Author'', ''post_id_en'']
   \<and> issued (sample_world (\<lambda>k. Reply 350 200))
        (snd (sync_to_wordpress (sample_world (\<lambda>k. Reply 350 200)) ''en'' ''Author'' ''rec2'' ''tbl1'' ''base1''))
     = []"
proof -
  have empty: "falsy (getCellValue blank_record ''en'') \<or> falsy (getCellValue blank_record ''Author'')"
    by (simp add: getCellValue_def blank_record_def)
  have content: "falsy (getCellValue blank_record ''en'')"
    by (simp add: getCellValue_def blank_record_def)
  from sync_creates_field_before_validation_error
         [OF sample_getTable sample_no_post_id sample_creatable sample_rec2 empty refl,
          of "\<lambda>k. Reply 350 200" "''base1''"]
  show ?thesis
    using content by (simp add: content_table_def)
qed

subsection \<open>The translation batch\<close>

lemma translate_i18n_loop:
  assumes "getTable w table_id = Ok table"
    and "selectRecordAsync table record_id = Some record"
  shows "translate_i18n w input_json_column languages record_id table_id base_id model
         = translate_loop base_id table_id record_id model
             (JSON_stringify (getCellValue record input_json_column)) w languages"
  using assms by (simp add: translate_i18n_def Let_def)

lemma output_column_translate_request:
  "payload (translate_request base_id table_id record_id model user_msg l) ''output_column''
     = Some (JStr (column l))"
  by (simp add: payload_def translate_request_def post_def)

text \<open>
  C5: in \<^verbatim>\<open>translate_i18n\<close> with \<open>N\<close> target languages, when every sub-request is
  answered with a 2xx status, the call returns normally and has issued exactly \<open>N\<close>
  requests, one per language in list order (the \<open>i\<close>-th request is answered before the
  next is sent, as the \<open>i\<close>-th entry of the log), and the \<open>i\<close>-th request's
  \<^verbatim>\<open>output_column\<close> is the \<open>i\<close>-th language's column.
\<close>

theorem translation_issues_one_request_per_language:
  assumes "getTable w table_id = Ok table"
    and "selectRecordAsync table record_id = Some record"
    and "user_msg = JSON_stringify (getCellValue record input_json_column)"
    and "\<forall>i<length languages.
           succeeds (remote w (length (requests w) + i)
                       (translate_request base_id table_id record_id model user_msg (languages ! i)))"
    and "w' = snd (translate_i18n w input_json_column languages record_id table_id base_id model)"
  shows "fst (translate_i18n w input_json_column languages record_id table_id base_id model) = Ok ()
         \<and> length (issued w w') = length languages
         \<and> issued w w' = map (translate_request base_id table_id record_id model user_msg) languages
         \<and> map (\<lambda>rq. payload rq ''output_column'') (issued w w')
             = map (\<lambda>l. Some (JStr (column l))) languages"
proof -
  have "translate_i18n w input_json_column languages record_id table_id base_id model
        = (Ok (), w\<lparr>requests := requests w
                       @ map (translate_request base_id table_id record_id model user_msg) languages\<rparr>)"
    unfolding translate_i18n_loop[OF assms(1,2)] assms(3)[symmetric]
    by (rule translate_loop_all_ok[OF assms(4)])
  then show ?thesis
    by (simp add: assms(5) output_column_translate_request comp_def)
qed

text \<open>On the sample base with three languages, every request answered with 200.\<close>

theorem translation_issues_one_request_per_language_witness:
  "fst (translate_i18n (sample_world (\<lambda>k. Reply 350 200)) ''en'' three_languages ''rec1'' ''tbl1''
          ''base1'' ''gpt-4o'') = Ok ()
   \<and> map (\<lambda>rq. payload rq ''output_column'')
        (issued (sample_world (\<lambda>k. Reply 350 200))
           (snd (translate_i18n (sample_world (\<lambda>k. Reply 350 200)) ''en'' three_languages ''rec1''
                   ''tbl1'' ''base1'' ''gpt-4o'')))
      = [Some (JStr ''fr''), Some (JStr ''de''), Some (JStr ''es'')]"
proof -
  have all: "\<forall>i<length three_languages.
           succeeds (remote (sample_world (\<lambda>k. Reply 350 200))
                       (length (requests (sample_world (\<lambda>k. Reply 350 200))) + i)
                       (translate_request ''base1'' ''tbl1'' ''rec1'' ''gpt-4o''
                          (JSON_stringify (getCellValue filled_record ''en'')) (three_languages ! i)))"
    by (simp add: sample_remote ok_def)
  from translation_issues_one_request_per_language[OF sample_getTable sample_rec1 refl all refl]
  show ?thesis by (simp add: three_languages_def output_column_translate_request)
qed

text \<open>
  C6: in \<^verbatim>\<open>translate_i18n\<close>, when the sub-requests before the \<open>k\<close>-th succeed and
  the \<open>k\<close>-th fails (a response with a non-2xx status, or a rejected fetch), the call
  throws that failure's error, and the requests issued are those of the languages up to
  and including the \<open>k\<close>-th: none is issued for a later language.
\<close>

theorem translation_stops_at_first_failure:
  assumes "getTable w table_id = Ok table"
    and "selectRecordAsync table record_id = Some record"
    and "user_msg = JSON_stringify (getCellValue record input_json_column)"
    and "k < length languages"
    and "\<forall>i<k. succeeds (remote w (length (requests w) + i)
                   (translate_request base_id table_id record_id model user_msg (languages ! i)))"
    and "rp = remote w (length (requests w) + k)
                (translate_request base_id table_id record_id model user_msg (languages ! k))"
    and "\<not> succeeds rp"
    and "rp \<noteq> Silent"
    and "w' = snd (translate_i18n w input_json_column languages record_id table_id base_id model)"
  shows "fst (translate_i18n w input_json_column languages record_id table_id base_id model)
           = (case rp of
                Reply t status \<Rightarrow> Threw (Error (''HTTP error! status: '' @ show_nat status))
              | Rejects t m \<Rightarrow> Threw (FetchRejected m)
              | Silent \<Rightarrow> Hung)
         \<and> (\<exists>e. fst (translate_i18n w input_json_column languages record_id table_id base_id model)
                  = Threw e)
         \<and> issued w w'
             = map (translate_request base_id table_id record_id model user_msg) (take (Suc k) languages)
         \<and> length (issued w w') = Suc k"
proof -
  have run: "translate_i18n w input_json_column languages record_id table_id base_id model
        = (settle rp, w\<lparr>requests := requests w
              @ map (translate_request base_id table_id record_id model user_msg) (take (Suc k) languages)\<rparr>)"
    unfolding translate_i18n_loop[OF assms(1,2)] assms(3)[symmetric] assms(6)
    by (rule translate_loop_stops[OF assms(4,5) assms(7)[unfolded assms(6)]])
  have "settle rp = (case rp of
                Reply t status \<Rightarrow> Threw (Error (''HTTP error! status: '' @ show_nat status))
              | Rejects t m \<Rightarrow> Threw (FetchRejected m)
              | Silent \<Rightarrow> Hung)"
    using assms(7) by (cases rp) simp_all
  moreover have "\<exists>e. settle rp = Threw e"
    using assms(7,8) by (cases rp) simp_all
  ultimately show ?thesis
    using assms(4) by (simp add: run assms(9))
qed

text \<open>
  On the sample base with three languages, the second request answered with 503: the
  Spanish request is never sent.
\<close>

theorem translation_stops_at_first_failure_witness:
  "fst (translate_i18n (sample_world (\<lambda>k. if k = 1 then Reply 350 503 else Reply 350 200)) ''en''
          three_languages ''rec1'' ''tbl1'' ''base1'' ''gpt-4o'')
     = Threw (Error ''HTTP error! status: 503'')
   \<and> map (\<lambda>rq. payload rq ''output_column'')
        (issued (sample_world (\<lambda>k. if k = 1 then Reply 350 503 else Reply 350 200))
           (snd (translate_i18n (sample_world (\<lambda>k. if k = 1 then Reply 350 503 else Reply 350 200))
                   ''en'' three_languages ''rec1'' ''tbl1'' ''base1'' ''gpt-4o'')))
      = [Some (JStr ''fr''), Some (JStr ''de'')]"
proof -
  let ?answer = "\<lambda>k::nat. if k = 1 then Reply 350 503 else Reply 350 200"
  have k: "1 < length three_languages"
    by (simp add: three_languages_def)
  have before: "\<forall>i<1. succeeds (remote (sample_world ?answer)
                       (length (requests (sample_world ?answer)) + i)
                       (translate_request ''base1'' ''tbl1'' ''rec1'' ''gpt-4o''
                          (JSON_stringify (getCellValue filled_record ''en'')) (three_languages ! i)))"
    by (simp add: sample_remote sample_requests ok_def)
  have rp: "Reply 350 503 = remote (sample_world ?answer)
                       (length (requests (sample_world ?answer)) + 1)
                       (translate_request ''base1'' ''tbl1'' ''rec1'' ''gpt-4o''
                          (JSON_stringify (getCellValue filled_record ''en'')) (three_languages ! 1))"
    by (simp add: sample_remote sample_requests)
  have fails: "\<not> succeeds (Reply 350 503)" and heard: "Reply 350 503 \<noteq> Silent"
    by (simp_all add: ok_def)
  from translation_stops_at_first_failure
         [OF sample_getTable sample_rec1 refl k before rp fails heard refl]
  show ?thesis
    by (simp add: three_languages_def output_column_translate_request show_nat_eval)
qed

subsection \<open>A whole run of \<^verbatim>\<open>sync_to_wordpress\<close>\<close>

lemma sync_to_wordpress_invalid:
  assumes "getTable w table_id = Ok table"
    and "list_ex (\<lambda>c. fst c = ''post_id_'' @ lang) (t_columns table) \<or> t_create_error table = None"
    and "selectRecordAsync table record_id = Some record"
    and "falsy (getCellValue record lang) \<or> falsy (getCellValue record author_id_column)"
  shows "fst (sync_to_wordpress w lang author_id_column record_id table_id base_id)
           = Threw (Error (if falsy (getCellValue record lang) then ''No content found''
                           else ''No author ID found''))
         \<and> issued w (snd (sync_to_wordpress w lang author_id_column record_id table_id base_id)) = []"
proof (cases "list_ex (\<lambda>c. fst c = ''post_id_'' @ lang) (t_columns table)")
  case True
  show ?thesis
    unfolding sync_field_present[OF assms(1) True] assms(3) sync_record_invalid[OF assms(4)]
    by simp
next
  case False
  with assms(2) have "t_create_error table = None" by simp
  show ?thesis
    unfolding sync_field_created[OF assms(1) False \<open>t_create_error table = None\<close>] assms(3)
      sync_record_invalid[OF assms(4)]
    by (simp add: issued_def)
qed

lemma sync_to_wordpress_valid:
  assumes "getTable w table_id = Ok table"
    and "list_ex (\<lambda>c. fst c = ''post_id_'' @ lang) (t_columns table) \<or> t_create_error table = None"
    and "selectRecordAsync table record_id = Some record"
    and "\<not> falsy (getCellValue record lang)"
    and "\<not> falsy (getCellValue record author_id_column)"
    and "JSON_parse w (js_String (getCellValue record lang)) = Some parsed"
    and "parsed \<noteq> JNull"
    and "rq = sync_request parsed (getCellValue record (''post_id_'' @ lang))
                (getCellValue record author_id_column) (getCellValue record ''post_id_en'')
                lang base_id table_id record_id (''post_id_'' @ lang)"
  shows "fst (sync_to_wordpress w lang author_id_column record_id table_id base_id)
         = (case await (remote w (length (requests w)) rq) of
              Threw e \<Rightarrow> Threw e
            | Hung \<Rightarrow> Hung
            | Ok status \<Rightarrow>
                if ok status then Ok ()
                else Threw (Error (''API request failed with status '' @ show_nat status)))
         \<and> issued w (snd (sync_to_wordpress w lang author_id_column record_id table_id base_id)) = [rq]"
proof (cases "list_ex (\<lambda>c. fst c = ''post_id_'' @ lang) (t_columns table)")
  case True
  show ?thesis
    unfolding sync_field_present[OF assms(1) True] assms(3)
      sync_record_valid[OF assms(4,5,6,7)] assms(8)[symmetric]
    by (simp add: Let_def split: res.splits)
next
  case False
  with assms(2) have creatable: "t_create_error table = None" by simp
  let ?w1 = "w\<lparr>tables := (tables w)(table_id \<mapsto>
               table\<lparr>t_columns := t_columns table @ [(''post_id_'' @ lang, ''number'')]\<rparr>)\<rparr>"
  have parse1: "JSON_parse ?w1 (js_String (getCellValue record lang)) = Some parsed"
    using assms(6) by simp
  show ?thesis
    unfolding sync_field_created[OF assms(1) False creatable] assms(3)
      sync_record_valid[OF assms(4,5) parse1 assms(7)] assms(8)[symmetric]
    by (simp add: Let_def issued_def split: res.splits)
qed

subsection \<open>What the requests carry\<close>

lemma map_image_request_carries:
  "identifies (map_image_request tpl prompt output_column record_id table_id base_id)
     base_id table_id record_id
   \<and> payload (map_image_request tpl prompt output_column record_id table_id base_id) ''output_column''
       = Some (JStr output_column)"
  by (simp add: identifies_def payload_def map_image_request_def post_def)

lemma ai_generate_request_carries:
  "identifies (ai_generate_request base_id table_id record_id output_column model sp msg fmt)
     base_id table_id record_id
   \<and> payload (ai_generate_request base_id table_id record_id output_column model sp msg fmt)
        ''output_column'' = Some (JStr output_column)"
  by (simp add: identifies_def payload_def ai_generate_request_def post_def)

lemma translate_request_carries:
  "identifies (translate_request base_id table_id record_id model user_msg l)
     base_id table_id record_id
   \<and> payload (translate_request base_id table_id record_id model user_msg l) ''output_column''
       = Some (JStr (column l))"
  by (simp add: identifies_def payload_def translate_request_def post_def)

lemma search_request_carries:
  "identifies (search_request base_id table_id record_id output_column keywords)
     base_id table_id record_id
   \<and> payload (search_request base_id table_id record_id output_column keywords) ''output_column''
       = Some (JStr output_column)"
  by (simp add: identifies_def payload_def search_request_def post_def)

lemma crawl_request_carries:
  "identifies (crawl_request base_id table_id record_id output_column u)
     base_id table_id record_id
   \<and> payload (crawl_request base_id table_id record_id output_column u) ''output_column''
       = Some (JStr output_column)"
  by (simp add: identifies_def payload_def crawl_request_def post_def)

lemma sync_request_carries:
  "identifies (sync_request parsed post_id author_id post_id_en lang base_id table_id record_id pid)
     base_id table_id record_id
   \<and> payload (sync_request parsed post_id author_id post_id_en lang base_id table_id record_id pid)
        ''post_id_column'' = Some (JStr pid)
   \<and> payload (sync_request parsed post_id author_id post_id_en lang base_id table_id record_id pid)
        ''output_column'' = None"
  by (simp add: identifies_def payload_def sync_request_def)

lemma translate_i18n_issued:
  "\<exists>k\<le>length languages.
     issued w (snd (translate_i18n w input_json_column languages record_id table_id base_id model))
     = map (translate_request base_id table_id record_id model
              (case tables w table_id of
                 None \<Rightarrow> []
               | Some table \<Rightarrow>
                   (case selectRecordAsync table record_id of
                      None \<Rightarrow> []
                    | Some record \<Rightarrow> JSON_stringify (getCellValue record input_json_column))))
         (take k languages)"
proof (cases "tables w table_id")
  case None
  then have "issued w (snd (translate_i18n w input_json_column languages record_id table_id base_id model)) = []"
    by (simp add: translate_i18n_def getTable_def)
  then show ?thesis by (intro exI[of _ 0]) simp
next
  case (Some table)
  show ?thesis
  proof (cases "selectRecordAsync table record_id")
    case None
    with Some have "issued w (snd (translate_i18n w input_json_column languages record_id table_id base_id model)) = []"
      by (simp add: translate_i18n_def getTable_def)
    then show ?thesis by (intro exI[of _ 0]) simp
  next
    case (Some r)
    from translate_loop_issued[of languages base_id table_id record_id model
            "JSON_stringify (getCellValue r input_json_column)" w]
    obtain k where "k \<le> length languages"
      and "requests (snd (translate_loop base_id table_id record_id model
                            (JSON_stringify (getCellValue r input_json_column)) w languages))
           = requests w @ map (translate_request base_id table_id record_id model
                                 (JSON_stringify (getCellValue r input_json_column)))
                            (take k languages)"
      by blast
    with Some \<open>tables w table_id = Some table\<close> show ?thesis
      by (intro exI[of _ k]) (simp add: translate_i18n_def getTable_def Let_def issued_def)
  qed
qed

subsection \<open>More facts about the sample base\<close>

lemma filled_cells:
  "getCellValue filled_record ''Template'' = Str ''castle''"
  "getCellValue filled_record ''Prompt'' = Str ''sunset''"
  "getCellValue filled_record ''Keywords'' = Str ''tea''"
  "getCellValue filled_record ''Link'' = Str ''https://example.org''"
  "getCellValue filled_record ''en'' = Str ''{}''"
  "getCellValue filled_record ''Author'' = Num 7"
  "getCellValue filled_record ''Notes'' = Null"
  "getCellValue filled_record ''post_id_en'' = Null"
  by (simp_all add: getCellValue_def filled_record_def)

lemma blank_cells: "getCellValue blank_record field = Null"
  by (simp add: getCellValue_def blank_record_def)

lemma sample_parse: "JSON_parse (sample_world answer) ''{}'' = Some (JObj [])"
  by (simp add: sample_world_def)

lemma sample_prompt: "getSystemPrompt (sample_world answer) ''summary'' = Ok (Str ''Summarise.'')"
  by (simp add: getSystemPrompt_def getTable_def sample_world_def PROMPTS_TABLE_NAME_def
        prompts_table_def getCellValueAsString_def getCellValue_def)

lemma show_nat_500: "show_nat 500 = ''500''"
  by (simp add: show_nat_eval)

subsection \<open>The response status\<close>

text \<open>
  C3, as the code has it: in \<^verbatim>\<open>create_map_image\<close> (when the response arrives before
  the timer), in \<^verbatim>\<open>translate_i18n\<close> (for the first sub-request that is not answered
  with a 2xx status), in \<^verbatim>\<open>crawl_url_content\<close> and in \<^verbatim>\<open>sync_to_wordpress\<close>, a
  response with a non-2xx status makes the call throw an error whose message ends with
  the status code in decimal. \<^verbatim>\<open>google_search\<close> and \<^verbatim>\<open>ai_generate\<close> await the
  response and never look at its status: they return normally whatever it is.
\<close>

theorem checked_variants_fail_on_bad_status:
  assumes "getTable w table_id = Ok table"
    and "\<not> ok status"
  shows
    "(selectRecordsAsync table [record_id] = rcd # rest
        \<and> \<not> falsy (getCellValue rcd tpl_column) \<and> \<not> falsy (getCellValue rcd prompt_column)
        \<and> remote w (length (requests w))
             (map_image_request (getCellValue rcd tpl_column) (getCellValue rcd prompt_column)
                output_column record_id table_id base_id) = Reply t status
        \<and> t < TIMEOUT
      \<longrightarrow> fst (create_map_image w tpl_column prompt_column output_column record_id table_id base_id)
            = Threw (Error (''API request failed with status '' @ show_nat status)))
   \<and> (selectRecordAsync table record_id = Some rcd
        \<and> k < length languages
        \<and> (\<forall>i<k. succeeds (remote w (length (requests w) + i)
               (translate_request base_id table_id record_id model
                  (JSON_stringify (getCellValue rcd input_column)) (languages ! i))))
        \<and> remote w (length (requests w) + k)
             (translate_request base_id table_id record_id model
                (JSON_stringify (getCellValue rcd input_column)) (languages ! k)) = Reply t status
      \<longrightarrow> fst (translate_i18n w input_column languages record_id table_id base_id model)
            = Threw (Error (''HTTP error! status: '' @ show_nat status)))
   \<and> (selectRecordsAsync table [record_id] = rcd # rest
        \<and> \<not> falsy (getCellValue rcd input_column)
        \<and> remote w (length (requests w))
             (crawl_request base_id table_id record_id output_column (getCellValue rcd input_column))
           = Reply t status
      \<longrightarrow> fst (crawl_url_content w input_column output_column record_id table_id base_id)
            = Threw (Error (''API request failed with status '' @ show_nat status)))
   \<and> (selectRecordAsync table record_id = Some rcd
        \<and> (list_ex (\<lambda>c. fst c = ''post_id_'' @ lang) (t_columns table) \<or> t_create_error table = None)
        \<and> \<not> falsy (getCellValue rcd lang) \<and> \<not> falsy (getCellValue rcd author_id_column)
        \<and> JSON_parse w (js_String (getCellValue rcd lang)) = Some parsed \<and> parsed \<noteq> JNull
        \<and> remote w (length (requests w))
             (sync_request parsed (getCellValue rcd (''post_id_'' @ lang))
                (getCellValue rcd author_id_column) (getCellValue rcd ''post_id_en'')
                lang base_id table_id record_id (''post_id_'' @ lang)) = Reply t status
      \<longrightarrow> fst (sync_to_wordpress w lang author_id_column record_id table_id base_id)
            = Threw (Error (''API request failed with status '' @ show_nat status)))
   \<and> (selectRecordAsync table record_id = Some rcd
        \<and> getCellValueAsString rcd input_column \<noteq> []
        \<and> remote w (length (requests w))
             (search_request base_id table_id record_id output_column
                (getCellValueAsString rcd input_column)) = Reply t status
      \<longrightarrow> fst (google_search w input_column output_column record_id table_id base_id) = Ok ())
   \<and> (selectRecordAsync table record_id = Some rcd
        \<and> getSystemPrompt w system_prompt_name = Ok system_prompt \<and> \<not> falsy system_prompt
        \<and> remote w (length (requests w))
             (ai_generate_request base_id table_id record_id output_column model system_prompt
                (join [CHR 0x0A] (map (xml_wrap rcd) input_columns)) openai_json_format)
           = Reply t status
      \<longrightarrow> fst (ai_generate w input_columns system_prompt_name output_column record_id table_id
                 base_id model openai_json_format) = Ok ())"
proof (intro conjI impI; elim conjE)
  assume "selectRecordsAsync table [record_id] = rcd # rest"
    and "\<not> falsy (getCellValue rcd tpl_column)" and "\<not> falsy (getCellValue rcd prompt_column)"
    and "remote w (length (requests w))
             (map_image_request (getCellValue rcd tpl_column) (getCellValue rcd prompt_column)
                output_column record_id table_id base_id) = Reply t status"
    and "t < TIMEOUT"
  then show "fst (create_map_image w tpl_column prompt_column output_column record_id table_id base_id)
            = Threw (Error (''API request failed with status '' @ show_nat status))"
    using assms by (simp add: create_map_image_valid Let_def)
next
  assume r: "selectRecordAsync table record_id = Some rcd"
    and k: "k < length languages"
    and before: "\<forall>i<k. succeeds (remote w (length (requests w) + i)
               (translate_request base_id table_id record_id model
                  (JSON_stringify (getCellValue rcd input_column)) (languages ! i)))"
    and at: "remote w (length (requests w) + k)
             (translate_request base_id table_id record_id model
                (JSON_stringify (getCellValue rcd input_column)) (languages ! k)) = Reply t status"
  from at assms(2)
  have "\<not> succeeds (remote w (length (requests w) + k)
             (translate_request base_id table_id record_id model
                (JSON_stringify (getCellValue rcd input_column)) (languages ! k)))"
    by simp
  from translate_loop_stops[OF k before this] at assms(2)
  show "fst (translate_i18n w input_column languages record_id table_id base_id model)
            = Threw (Error (''HTTP error! status: '' @ show_nat status))"
    by (simp add: translate_i18n_loop[OF assms(1) r])
next
  assume "selectRecordsAsync table [record_id] = rcd # rest"
    and "\<not> falsy (getCellValue rcd input_column)"
    and "remote w (length (requests w))
             (crawl_request base_id table_id record_id output_column (getCellValue rcd input_column))
           = Reply t status"
  then show "fst (crawl_url_content w input_column output_column record_id table_id base_id)
            = Threw (Error (''API request failed with status '' @ show_nat status))"
    using assms by (simp add: crawl_url_content_valid Let_def)
next
  assume r: "selectRecordAsync table record_id = Some rcd"
    and f: "list_ex (\<lambda>c. fst c = ''post_id_'' @ lang) (t_columns table) \<or> t_create_error table = None"
    and c: "\<not> falsy (getCellValue rcd lang)" and a: "\<not> falsy (getCellValue rcd author_id_column)"
    and p: "JSON_parse w (js_String (getCellValue rcd lang)) = Some parsed" and n: "parsed \<noteq> JNull"
    and at: "remote w (length (requests w))
             (sync_request parsed (getCellValue rcd (''post_id_'' @ lang))
                (getCellValue rcd author_id_column) (getCellValue rcd ''post_id_en'')
                lang base_id table_id record_id (''post_id_'' @ lang)) = Reply t status"
  from sync_to_wordpress_valid[OF assms(1) f r c a p n refl, of base_id] at assms(2)
  show "fst (sync_to_wordpress w lang author_id_column record_id table_id base_id)
            = Threw (Error (''API request failed with status '' @ show_nat status))"
    by simp
next
  assume "selectRecordAsync table record_id = Some rcd"
    and "getCellValueAsString rcd input_column \<noteq> []"
    and "remote w (length (requests w))
             (search_request base_id table_id record_id output_column
                (getCellValueAsString rcd input_column)) = Reply t status"
  then show "fst (google_search w input_column output_column record_id table_id base_id) = Ok ()"
    using assms(1) by (simp add: google_search_valid Let_def)
next
  assume "selectRecordAsync table record_id = Some rcd"
    and "getSystemPrompt w system_prompt_name = Ok system_prompt" and "\<not> falsy system_prompt"
    and "remote w (length (requests w))
             (ai_generate_request base_id table_id record_id output_column model system_prompt
                (join [CHR 0x0A] (map (xml_wrap rcd) input_columns)) openai_json_format)
           = Reply t status"
  then show "fst (ai_generate w input_columns system_prompt_name output_column record_id table_id
                 base_id model openai_json_format) = Ok ()"
    using assms(1) by (simp add: ai_generate_valid Let_def)
qed

text \<open>On the sample base, every request answered with status 500.\<close>

theorem checked_variants_fail_on_bad_status_witness:
  "fst (create_map_image (sample_world (\<lambda>k. Reply 350 500)) ''Template'' ''Prompt'' ''Map'' ''rec1''
          ''tbl1'' ''base1'') = Threw (Error ''API request failed with status 500'')
   \<and> fst (translate_i18n (sample_world (\<lambda>k. Reply 350 500)) ''en'' three_languages ''rec1'' ''tbl1''
            ''base1'' ''gpt-4o'') = Threw (Error ''HTTP error! status: 500'')
   \<and> fst (crawl_url_content (sample_world (\<lambda>k. Reply 350 500)) ''Link'' ''Text'' ''rec1'' ''tbl1''
            ''base1'') = Threw (Error ''API request failed with status 500'')
   \<and> fst (sync_to_wordpress (sample_world (\<lambda>k. Reply 350 500)) ''en'' ''Author'' ''rec1'' ''tbl1''
            ''base1'') = Threw (Error ''API request failed with status 500'')
   \<and> fst (google_search (sample_world (\<lambda>k. Reply 350 500)) ''Keywords'' ''Results'' ''rec1'' ''tbl1''
            ''base1'') = Ok ()
   \<and> fst (ai_generate (sample_world (\<lambda>k. Reply 350 500)) [''Keywords''] ''summary'' ''Draft'' ''rec1''
            ''tbl1'' ''base1'' ''gpt-4o'' False) = Ok ()"
proof -
  let ?W = "sample_world (\<lambda>k. Reply 350 500)"
  have bad: "\<not> ok 500" by (simp add: ok_def)
  note all = checked_variants_fail_on_bad_status
      [where w = "?W" and table_id = "''tbl1''" and table = content_table and status = 500
         and record_id = "''rec1''" and rcd = filled_record and rest = "[]" and t = 350
         and base_id = "''base1''",
       OF sample_getTable bad]
  have image: "fst (create_map_image ?W ''Template'' ''Prompt'' ''Map'' ''rec1'' ''tbl1'' ''base1'')
                 = Threw (Error ''API request failed with status 500'')"
    using all[THEN conjunct1, of "''Template''" "''Prompt''" "''Map''"]
    by (simp add: sample_recs1 filled_cells sample_remote TIMEOUT_def show_nat_500)
  have translate: "fst (translate_i18n ?W ''en'' three_languages ''rec1'' ''tbl1'' ''base1'' ''gpt-4o'')
                 = Threw (Error ''HTTP error! status: 500'')"
    using all[THEN conjunct2, THEN conjunct1, of 0 three_languages "''gpt-4o''" "''en''"]
    by (simp add: sample_rec1 sample_remote show_nat_500 three_languages_def)
  have crawl: "fst (crawl_url_content ?W ''Link'' ''Text'' ''rec1'' ''tbl1'' ''base1'')
                 = Threw (Error ''API request failed with status 500'')"
    using all[THEN conjunct2, THEN conjunct2, THEN conjunct1, of "''Link''" "''Text''"]
    by (simp add: sample_recs1 filled_cells sample_remote show_nat_500)
  have sync: "fst (sync_to_wordpress ?W ''en'' ''Author'' ''rec1'' ''tbl1'' ''base1'')
                 = Threw (Error ''API request failed with status 500'')"
    using all[THEN conjunct2, THEN conjunct2, THEN conjunct2, THEN conjunct1,
              of "''en''" "''Author''" "JObj []"]
    by (simp add: sample_rec1 filled_cells sample_remote sample_creatable sample_parse show_nat_500)
  have search: "fst (google_search ?W ''Keywords'' ''Results'' ''rec1'' ''tbl1'' ''base1'') = Ok ()"
    using all[THEN conjunct2, THEN conjunct2, THEN conjunct2, THEN conjunct2, THEN conjunct1,
              of "''Keywords''" "''Results''"]
    by (simp add: sample_rec1 filled_cells sample_remote getCellValueAsString_def)
  have generate: "fst (ai_generate ?W [''Keywords''] ''summary'' ''Draft'' ''rec1'' ''tbl1'' ''base1''
                         ''gpt-4o'' False) = Ok ()"
    using all[THEN conjunct2, THEN conjunct2, THEN conjunct2, THEN conjunct2, THEN conjunct2,
              of "''summary''" "Str ''Summarise.''" "''Draft''" "''gpt-4o''" "[''Keywords'']" False]
    by (simp add: sample_rec1 sample_remote sample_prompt)
  from image translate crawl sync search generate show ?thesis by simp
qed

text \<open>
  The claim that every script fails on a non-2xx response does not hold of
  \<^verbatim>\<open>google_search\<close>: on the sample base the search request is answered with 500 and
  the call returns normally.
\<close>

theorem unchecked_status_counterexample:
  "remote (sample_world (\<lambda>k. Reply 350 500)) 0
     (search_request ''base1'' ''tbl1'' ''rec1'' ''Results'' ''tea'') = Reply 350 500
   \<and> \<not> ok 500
   \<and> issued (sample_world (\<lambda>k. Reply 350 500))
        (snd (google_search (sample_world (\<lambda>k. Reply 350 500)) ''Keywords'' ''Results'' ''rec1''
                ''tbl1'' ''base1''))
      = [search_request ''base1'' ''tbl1'' ''rec1'' ''Results'' ''tea'']
   \<and> fst (google_search (sample_world (\<lambda>k. Reply 350 500)) ''Keywords'' ''Results'' ''rec1'' ''tbl1''
            ''base1'') = Ok ()"
proof -
  have kw: "getCellValueAsString filled_record ''Keywords'' \<noteq> []"
    by (simp add: getCellValueAsString_def filled_cells)
  show ?thesis
    unfolding google_search_valid[OF sample_getTable sample_rec1 kw]
    by (simp add: Let_def sample_remote sample_requests ok_def getCellValueAsString_def filled_cells
          issued_def)
qed

subsection \<open>Validation of the input cells\<close>

lemma translate_loop_first_request:
  "take (Suc 0) (issued w (snd (translate_loop b t r m u w (l # ls)))) = [translate_request b t r m u l]"
proof -
  let ?rq = "translate_request b t r m u l"
  let ?w' = "w\<lparr>requests := requests w @ [?rq]\<rparr>"
  show ?thesis
  proof (cases "succeeds (remote w (length (requests w)) ?rq)")
    case True
    then have step: "translateToLanguage b t r m u w l = (Ok (), ?w')"
      by (simp add: translateToLanguage_eq settle_Ok)
    from translate_loop_issued[of ls b t r m u ?w'] obtain k
      where "requests (snd (translate_loop b t r m u ?w' ls))
               = requests ?w' @ map (translate_request b t r m u) (take k ls)"
      by blast
    with step show ?thesis by (simp add: issued_def)
  next
    case False
    then show ?thesis
      by (cases "remote w (length (requests w)) ?rq") (simp_all add: translateToLanguage_eq issued_def)
  qed
qed

lemma refusing_getTable:
  "getTable (sample_world answer\<lparr>tables := [''tbl1'' \<mapsto> content_table\<lparr>t_create_error := Some ''denied''\<rparr>]\<rparr>)
     ''tbl1'' = Ok (content_table\<lparr>t_create_error := Some ''denied''\<rparr>)"
  by (simp add: getTable_def)

text \<open>
  C1, as the code has it, for a call whose table and record exist.
  In \<^verbatim>\<open>create_map_image\<close> (template, prompt), \<^verbatim>\<open>google_search\<close> (keywords) and
  \<^verbatim>\<open>crawl_url_content\<close> (URL), when a cell the script checks is empty or absent, the
  call throws the script's fixed validation error (\<^verbatim>\<open>Missing template or prompt\<close>,
  \<^verbatim>\<open>No keywords found\<close>, \<^verbatim>\<open>No URL found\<close>) and leaves the world as it was, so no HTTP
  request is issued.
  In \<^verbatim>\<open>sync_to_wordpress\<close> (content, author) the same holds with
  \<^verbatim>\<open>No content found\<close> or \<^verbatim>\<open>No author ID found\<close> provided the field
  \<^verbatim>\<open>post_id_<lang>\<close> is already there or can be created; when it is absent and
  \<^verbatim>\<open>createFieldAsync\<close> refuses, the call throws that refusal before any cell is
  checked, again with no request.
  \<^verbatim>\<open>ai_generate\<close> and \<^verbatim>\<open>translate_i18n\<close> do not check their input cells: with the
  system prompt found, \<^verbatim>\<open>ai_generate\<close> issues its one request whatever the input cells
  hold and never throws an error of its own; \<^verbatim>\<open>translate_i18n\<close> issues the request of
  the first language whatever the input cell holds.
\<close>

theorem empty_required_cell_fails_before_request:
  assumes "getTable w table_id = Ok table"
  shows
    "(selectRecordsAsync table [record_id] = rcd # rest
        \<and> (falsy (getCellValue rcd tpl_column) \<or> falsy (getCellValue rcd prompt_column))
      \<longrightarrow> create_map_image w tpl_column prompt_column output_column record_id table_id base_id
            = (Threw (Error ''Missing template or prompt''), w))
   \<and> (selectRecordAsync table record_id = Some rcd
        \<and> getCellValueAsString rcd input_column = []
      \<longrightarrow> google_search w input_column output_column record_id table_id base_id
            = (Threw (Error ''No keywords found''), w))
   \<and> (selectRecordsAsync table [record_id] = rcd # rest
        \<and> falsy (getCellValue rcd input_column)
      \<longrightarrow> crawl_url_content w input_column output_column record_id table_id base_id
            = (Threw (Error ''No URL found''), w))
   \<and> (selectRecordAsync table record_id = Some rcd
        \<and> (list_ex (\<lambda>c. fst c = ''post_id_'' @ lang) (t_columns table) \<or> t_create_error table = None)
        \<and> (falsy (getCellValue rcd lang) \<or> falsy (getCellValue rcd author_id_column))
      \<longrightarrow> fst (sync_to_wordpress w lang author_id_column record_id table_id base_id)
            = Threw (Error (if falsy (getCellValue rcd lang) then ''No content found''
                            else ''No author ID found''))
          \<and> issued w (snd (sync_to_wordpress w lang author_id_column record_id table_id base_id)) = [])
   \<and> (\<not> list_ex (\<lambda>c. fst c = ''post_id_'' @ lang) (t_columns table)
        \<and> t_create_error table = Some refusal
      \<longrightarrow> sync_to_wordpress w lang author_id_column record_id table_id base_id
            = (Threw (CreateFieldFailed refusal), w))
   \<and> (selectRecordAsync table record_id = Some rcd
        \<and> getSystemPrompt w system_prompt_name = Ok system_prompt \<and> \<not> falsy system_prompt
      \<longrightarrow> issued w (snd (ai_generate w input_columns system_prompt_name output_column record_id
                             table_id base_id model openai_json_format))
            = [ai_generate_request base_id table_id record_id output_column model system_prompt
                 (join [CHR 0x0A] (map (xml_wrap rcd) input_columns)) openai_json_format]
          \<and> (\<forall>m. fst (ai_generate w input_columns system_prompt_name output_column record_id
                          table_id base_id model openai_json_format) \<noteq> Threw (Error m)))
   \<and> (selectRecordAsync table record_id = Some rcd
      \<longrightarrow> take (Suc 0)
            (issued w (snd (translate_i18n w input_column (first_language # languages) record_id
                              table_id base_id model)))
          = [translate_request base_id table_id record_id model
               (JSON_stringify (getCellValue rcd input_column)) first_language])"
proof (intro conjI impI allI; (elim conjE)?)
  assume "selectRecordsAsync table [record_id] = rcd # rest"
    and "falsy (getCellValue rcd tpl_column) \<or> falsy (getCellValue rcd prompt_column)"
  with assms
  show "create_map_image w tpl_column prompt_column output_column record_id table_id base_id
            = (Threw (Error ''Missing template or prompt''), w)"
    by (rule create_map_image_invalid)
next
  assume "selectRecordAsync table record_id = Some rcd"
    and "getCellValueAsString rcd input_column = []"
  with assms
  show "google_search w input_column output_column record_id table_id base_id
            = (Threw (Error ''No keywords found''), w)"
    by (rule google_search_invalid)
next
  assume "selectRecordsAsync table [record_id] = rcd # rest"
    and "falsy (getCellValue rcd input_column)"
  with assms
  show "crawl_url_content w input_column output_column record_id table_id base_id
            = (Threw (Error ''No URL found''), w)"
    by (rule crawl_url_content_invalid)
next
  assume r: "selectRecordAsync table record_id = Some rcd"
    and f: "list_ex (\<lambda>c. fst c = ''post_id_'' @ lang) (t_columns table) \<or> t_create_error table = None"
    and e: "falsy (getCellValue rcd lang) \<or> falsy (getCellValue rcd author_id_column)"
  from sync_to_wordpress_invalid[OF assms f r e]
  show "fst (sync_to_wordpress w lang author_id_column record_id table_id base_id)
            = Threw (Error (if falsy (getCellValue rcd lang) then ''No content found''
                            else ''No author ID found''))"
    by simp
next
  assume r: "selectRecordAsync table record_id = Some rcd"
    and f: "list_ex (\<lambda>c. fst c = ''post_id_'' @ lang) (t_columns table) \<or> t_create_error table = None"
    and e: "falsy (getCellValue rcd lang) \<or> falsy (getCellValue rcd author_id_column)"
  from sync_to_wordpress_invalid[OF assms f r e]
  show "issued w (snd (sync_to_wordpress w lang author_id_column record_id table_id base_id)) = []"
    by simp
next
  assume "\<not> list_ex (\<lambda>c. fst c = ''post_id_'' @ lang) (t_columns table)"
    and "t_create_error table = Some refusal"
  with assms
  show "sync_to_wordpress w lang author_id_column record_id table_id base_id
            = (Threw (CreateFieldFailed refusal), w)"
    by (rule sync_field_refused)
next
  assume r: "selectRecordAsync table record_id = Some rcd"
    and p: "getSystemPrompt w system_prompt_name = Ok system_prompt" and t: "\<not> falsy system_prompt"
  show "issued w (snd (ai_generate w input_columns system_prompt_name output_column record_id
                             table_id base_id model openai_json_format))
            = [ai_generate_request base_id table_id record_id output_column model system_prompt
                 (join [CHR 0x0A] (map (xml_wrap rcd) input_columns)) openai_json_format]"
    unfolding ai_generate_valid[OF p t assms r]
    by (simp add: Let_def split: res.splits)
next
  fix m
  assume r: "selectRecordAsync table record_id = Some rcd"
    and p: "getSystemPrompt w system_prompt_name = Ok system_prompt" and t: "\<not> falsy system_prompt"
  show "fst (ai_generate w input_columns system_prompt_name output_column record_id
                          table_id base_id model openai_json_format) \<noteq> Threw (Error m)"
    unfolding ai_generate_valid[OF p t assms r] Let_def
    by (cases "remote w (length (requests w))
                 (ai_generate_request base_id table_id record_id output_column model system_prompt
                    (join [CHR 0x0A] (map (xml_wrap rcd) input_columns)) openai_json_format)")
       simp_all
next
  assume r: "selectRecordAsync table record_id = Some rcd"
  show "take (Suc 0)
            (issued w (snd (translate_i18n w input_column (first_language # languages) record_id
                              table_id base_id model)))
          = [translate_request base_id table_id record_id model
               (JSON_stringify (getCellValue rcd input_column)) first_language]"
    unfolding translate_i18n_loop[OF assms r] by (rule translate_loop_first_request)
qed

text \<open>
  On the sample base: the blank record for \<^verbatim>\<open>create_map_image\<close>, \<^verbatim>\<open>google_search\<close>,
  \<^verbatim>\<open>crawl_url_content\<close>, \<^verbatim>\<open>ai_generate\<close> and \<^verbatim>\<open>translate_i18n\<close>; for
  \<^verbatim>\<open>sync_to_wordpress\<close> the filled record with an author column it has no cell for, and
  the blank record on a table that refuses new fields.
\<close>

theorem empty_required_cell_fails_before_request_witness:
  "create_map_image (sample_world (\<lambda>k. Reply 350 200)) ''Template'' ''Prompt'' ''Map'' ''rec2''
     ''tbl1'' ''base1''
     = (Threw (Error ''Missing template or prompt''), sample_world (\<lambda>k. Reply 350 200))
   \<and> google_search (sample_world (\<lambda>k. Reply 350 200)) ''Keywords'' ''Results'' ''rec2'' ''tbl1''
       ''base1''
     = (Threw (Error ''No keywords found''), sample_world (\<lambda>k. Reply 350 200))
   \<and> crawl_url_content (sample_world (\<lambda>k. Reply 350 200)) ''Link'' ''Text'' ''rec2'' ''tbl1''
       ''base1''
     = (Threw (Error ''No URL found''), sample_world (\<lambda>k. Reply 350 200))
   \<and> fst (sync_to_wordpress (sample_world (\<lambda>k. Reply 350 200)) ''en'' ''Notes'' ''rec1'' ''tbl1''
            ''base1'') = Threw (Error ''No author ID found'')
   \<and> issued (sample_world (\<lambda>k. Reply 350 200))
        (snd (sync_to_wordpress (sample_world (\<lambda>k. Reply 350 200)) ''en'' ''Notes'' ''rec1'' ''tbl1''
                ''base1'')) = []
   \<and> fst (sync_to_wordpress
            (sample_world (\<lambda>k. Reply 350 200)
               \<lparr>tables := [''tbl1'' \<mapsto> content_table\<lparr>t_create_error := Some ''denied''\<rparr>]\<rparr>)
            ''en'' ''Author'' ''rec2'' ''tbl1'' ''base1'') = Threw (CreateFieldFailed ''denied'')
   \<and> map (\<lambda>rq. payload rq ''user_msg'')
        (issued (sample_world (\<lambda>k. Reply 350 200))
           (snd (ai_generate (sample_world (\<lambda>k. Reply 350 200)) [''Notes''] ''summary'' ''Draft''
                   ''rec2'' ''tbl1'' ''base1'' ''gpt-4o'' False)))
      = [Some (JStr ''<Notes></Notes>'')]
   \<and> map (\<lambda>rq. payload rq ''user_msg'')
        (take (Suc 0)
           (issued (sample_world (\<lambda>k. Reply 350 200))
              (snd (translate_i18n (sample_world (\<lambda>k. Reply 350 200)) ''en'' three_languages
                      ''rec2'' ''tbl1'' ''base1'' ''gpt-4o''))))
      = [Some (JStr ''null'')]"
proof -
  let ?W = "sample_world (\<lambda>k. Reply 350 200)"
  let ?R = "?W\<lparr>tables := [''tbl1'' \<mapsto> content_table\<lparr>t_create_error := Some ''denied''\<rparr>]\<rparr>"
  note blank = empty_required_cell_fails_before_request
      [where w = "?W" and table_id = "''tbl1''" and table = content_table
         and record_id = "''rec2''" and rcd = blank_record and rest = "[]" and base_id = "''base1''",
       OF sample_getTable]
  note filled = empty_required_cell_fails_before_request
      [where w = "?W" and table_id = "''tbl1''" and table = content_table
         and record_id = "''rec1''" and rcd = filled_record and rest = "[]" and base_id = "''base1''",
       OF sample_getTable]
  note refusing = empty_required_cell_fails_before_request
      [where w = "?R" and table_id = "''tbl1''"
         and table = "content_table\<lparr>t_create_error := Some ''denied''\<rparr>"
         and record_id = "''rec2''" and base_id = "''base1''",
       OF refusing_getTable]
  have image: "create_map_image ?W ''Template'' ''Prompt'' ''Map'' ''rec2'' ''tbl1'' ''base1''
                 = (Threw (Error ''Missing template or prompt''), ?W)"
    using blank[THEN conjunct1, of "''Template''" "''Prompt''" "''Map''"]
    by (simp add: sample_recs2 blank_cells)
  have search: "google_search ?W ''Keywords'' ''Results'' ''rec2'' ''tbl1'' ''base1''
                 = (Threw (Error ''No keywords found''), ?W)"
    using blank[THEN conjunct2, THEN conjunct1, of "''Keywords''" "''Results''"]
    by (simp add: sample_rec2 blank_cells getCellValueAsString_def)
  have crawl: "crawl_url_content ?W ''Link'' ''Text'' ''rec2'' ''tbl1'' ''base1''
                 = (Threw (Error ''No URL found''), ?W)"
    using blank[THEN conjunct2, THEN conjunct2, THEN conjunct1, of "''Link''" "''Text''"]
    by (simp add: sample_recs2 blank_cells)
  have sync: "fst (sync_to_wordpress ?W ''en'' ''Notes'' ''rec1'' ''tbl1'' ''base1'')
                = Threw (Error ''No author ID found'')
              \<and> issued ?W (snd (sync_to_wordpress ?W ''en'' ''Notes'' ''rec1'' ''tbl1'' ''base1'')) = []"
    using filled[THEN conjunct2, THEN conjunct2, THEN conjunct2, THEN conjunct1, of "''en''" "''Notes''"]
    by (simp add: sample_rec1 filled_cells sample_creatable)
  have refused: "fst (sync_to_wordpress ?R ''en'' ''Author'' ''rec2'' ''tbl1'' ''base1'')
                   = Threw (CreateFieldFailed ''denied'')"
    using refusing[THEN conjunct2, THEN conjunct2, THEN conjunct2, THEN conjunct2, THEN conjunct1,
                   of "''en''" "''denied''" "''Author''"]
    by (simp add: content_table_def)
  have generate: "map (\<lambda>rq. payload rq ''user_msg'')
        (issued ?W (snd (ai_generate ?W [''Notes''] ''summary'' ''Draft'' ''rec2'' ''tbl1'' ''base1''
                           ''gpt-4o'' False)))
      = [Some (JStr ''<Notes></Notes>'')]"
    using blank[THEN conjunct2, THEN conjunct2, THEN conjunct2, THEN conjunct2, THEN conjunct2,
                THEN conjunct1,
                of "''summary''" "Str ''Summarise.''" "[''Notes'']" "''Draft''" "''gpt-4o''" False]
    by (simp add: sample_rec2 sample_prompt payload_def ai_generate_request_def post_def
          xml_wrap_def getCellValueAsString_def blank_cells)
  have translate: "map (\<lambda>rq. payload rq ''user_msg'')
        (take (Suc 0)
           (issued ?W (snd (translate_i18n ?W ''en'' three_languages ''rec2'' ''tbl1'' ''base1''
                              ''gpt-4o''))))
      = [Some (JStr ''null'')]"
    using blank[THEN conjunct2, THEN conjunct2, THEN conjunct2, THEN conjunct2, THEN conjunct2,
                THEN conjunct2,
                of "''en''" "\<lparr>column = ''fr'', name = ''French''\<rparr>"
                   "[\<lparr>column = ''de'', name = ''German''\<rparr>, \<lparr>column = ''es'', name = ''Spanish''\<rparr>]"
                   "''gpt-4o''"]
    by (simp add: sample_rec2 three_languages_def payload_def translate_request_def post_def
          blank_cells)
  from image search crawl sync refused generate translate show ?thesis by simp
qed

text \<open>
  The claim that every script fails on an empty input cell does not hold of
  \<^verbatim>\<open>ai_generate\<close> and \<^verbatim>\<open>translate_i18n\<close>: on the sample base, with an input column
  whose cell is empty, both return normally after sending the empty value on, as empty
  tag contents and as the JSON text \<^verbatim>\<open>null\<close>.
\<close>

theorem unvalidated_inputs_counterexample:
  "getCellValue filled_record ''Notes'' = Null
   \<and> fst (ai_generate (sample_world (\<lambda>k. Reply 350 200)) [''Notes''] ''summary'' ''Draft'' ''rec1''
            ''tbl1'' ''base1'' ''gpt-4o'' False) = Ok ()
   \<and> map (\<lambda>rq. payload rq ''user_msg'')
        (issued (sample_world (\<lambda>k. Reply 350 200))
           (snd (ai_generate (sample_world (\<lambda>k. Reply 350 200)) [''Notes''] ''summary'' ''Draft''
                   ''rec1'' ''tbl1'' ''base1'' ''gpt-4o'' False)))
      = [Some (JStr ''<Notes></Notes>'')]
   \<and> fst (translate_i18n (sample_world (\<lambda>k. Reply 350 200)) ''Notes'' three_languages ''rec1''
            ''tbl1'' ''base1'' ''gpt-4o'') = Ok ()
   \<and> map (\<lambda>rq. payload rq ''user_msg'')
        (issued (sample_world (\<lambda>k. Reply 350 200))
           (snd (translate_i18n (sample_world (\<lambda>k. Reply 350 200)) ''Notes'' three_languages
                   ''rec1'' ''tbl1'' ''base1'' ''gpt-4o'')))
      = [Some (JStr ''null''), Some (JStr ''null''), Some (JStr ''null'')]"
proof -
  let ?W = "sample_world (\<lambda>k. Reply 350 200)"
  have truthy: "\<not> falsy (Str ''Summarise.'')" by simp
  have generate:
    "fst (ai_generate ?W [''Notes''] ''summary'' ''Draft'' ''rec1'' ''tbl1'' ''base1'' ''gpt-4o'' False)
       = Ok ()
     \<and> map (\<lambda>rq. payload rq ''user_msg'')
          (issued ?W (snd (ai_generate ?W [''Notes''] ''summary'' ''Draft'' ''rec1'' ''tbl1'' ''base1''
                             ''gpt-4o'' False)))
        = [Some (JStr ''<Notes></Notes>'')]"
    unfolding ai_generate_valid[OF sample_prompt truthy sample_getTable sample_rec1]
    by (simp add: Let_def sample_remote sample_requests issued_def payload_def
          ai_generate_request_def post_def xml_wrap_def getCellValueAsString_def filled_cells)
  have all: "\<forall>i<length three_languages.
           succeeds (remote ?W (length (requests ?W) + i)
                       (translate_request ''base1'' ''tbl1'' ''rec1'' ''gpt-4o''
                          (JSON_stringify (getCellValue filled_record ''Notes'')) (three_languages ! i)))"
    by (simp add: sample_remote ok_def)
  have translate:
    "fst (translate_i18n ?W ''Notes'' three_languages ''rec1'' ''tbl1'' ''base1'' ''gpt-4o'') = Ok ()
     \<and> map (\<lambda>rq. payload rq ''user_msg'')
          (issued ?W (snd (translate_i18n ?W ''Notes'' three_languages ''rec1'' ''tbl1'' ''base1''
                             ''gpt-4o'')))
        = [Some (JStr ''null''), Some (JStr ''null''), Some (JStr ''null'')]"
    unfolding translate_i18n_loop[OF sample_getTable sample_rec1] translate_loop_all_ok[OF all]
    by (simp add: three_languages_def payload_def translate_request_def post_def filled_cells)
  from generate translate show ?thesis by (simp add: filled_cells)
qed

subsection \<open>The requests issued on the sample base\<close>

lemma sample_image_issued:
  "issued (sample_world (\<lambda>k. Reply 350 200))
     (snd (create_map_image (sample_world (\<lambda>k. Reply 350 200)) ''Template'' ''Prompt'' ''Map''
             ''rec1'' ''tbl1'' ''base1''))
   = [map_image_request (Str ''castle'') (Str ''sunset'') ''Map'' ''rec1'' ''tbl1'' ''base1'']"
proof -
  have tpl: "\<not> falsy (getCellValue filled_record ''Template'')"
    and prompt: "\<not> falsy (getCellValue filled_record ''Prompt'')"
    by (simp_all add: filled_cells)
  show ?thesis
    unfolding create_map_image_valid[OF sample_getTable sample_recs1 tpl prompt]
    by (simp add: Let_def sample_remote sample_requests issued_def TIMEOUT_def ok_def filled_cells)
qed

lemma sample_generate_issued:
  "issued (sample_world (\<lambda>k. Reply 350 200))
     (snd (ai_generate (sample_world (\<lambda>k. Reply 350 200)) [''Keywords''] ''summary'' ''Draft''
             ''rec1'' ''tbl1'' ''base1'' ''gpt-4o'' False))
   = [ai_generate_request ''base1'' ''tbl1'' ''rec1'' ''Draft'' ''gpt-4o'' (Str ''Summarise.'')
        ''<Keywords>tea</Keywords>'' False]"
proof -
  have truthy: "\<not> falsy (Str ''Summarise.'')" by simp
  show ?thesis
    unfolding ai_generate_valid[OF sample_prompt truthy sample_getTable sample_rec1]
    by (simp add: Let_def sample_remote sample_requests issued_def xml_wrap_def
          getCellValueAsString_def filled_cells)
qed

lemma sample_translate_issued:
  "issued (sample_world (\<lambda>k. Reply 350 200))
     (snd (translate_i18n (sample_world (\<lambda>k. Reply 350 200)) ''en'' three_languages ''rec1''
             ''tbl1'' ''base1'' ''gpt-4o''))
   = map (translate_request ''base1'' ''tbl1'' ''rec1'' ''gpt-4o''
            (JSON_stringify (getCellValue filled_record ''en''))) three_languages"
proof -
  have all: "\<forall>i<length three_languages.
           succeeds (remote (sample_world (\<lambda>k. Reply 350 200))
                       (length (requests (sample_world (\<lambda>k. Reply 350 200))) + i)
                       (translate_request ''base1'' ''tbl1'' ''rec1'' ''gpt-4o''
                          (JSON_stringify (getCellValue filled_record ''en'')) (three_languages ! i)))"
    by (simp add: sample_remote ok_def)
  show ?thesis
    unfolding translate_i18n_loop[OF sample_getTable sample_rec1] translate_loop_all_ok[OF all]
    by simp
qed

lemma sample_search_issued:
  "issued (sample_world (\<lambda>k. Reply 350 200))
     (snd (google_search (sample_world (\<lambda>k. Reply 350 200)) ''Keywords'' ''Results'' ''rec1''
             ''tbl1'' ''base1''))
   = [search_request ''base1'' ''tbl1'' ''rec1'' ''Results'' ''tea'']"
proof -
  have kw: "getCellValueAsString filled_record ''Keywords'' \<noteq> []"
    by (simp add: getCellValueAsString_def filled_cells)
  show ?thesis
    unfolding google_search_valid[OF sample_getTable sample_rec1 kw]
    by (simp add: Let_def sample_remote sample_requests issued_def getCellValueAsString_def
          filled_cells)
qed

lemma sample_crawl_issued:
  "issued (sample_world (\<lambda>k. Reply 350 200))
     (snd (crawl_url_content (sample_world (\<lambda>k. Reply 350 200)) ''Link'' ''Text'' ''rec1''
             ''tbl1'' ''base1''))
   = [crawl_request ''base1'' ''tbl1'' ''rec1'' ''Text'' (Str ''https://example.org'')]"
proof -
  have link: "\<not> falsy (getCellValue filled_record ''Link'')"
    by (simp add: filled_cells)
  show ?thesis
    unfolding crawl_url_content_valid[OF sample_getTable sample_recs1 link]
    by (simp add: Let_def sample_remote sample_requests issued_def ok_def filled_cells)
qed

lemma sample_sync_issued:
  "issued (sample_world (\<lambda>k. Reply 350 200))
     (snd (sync_to_wordpress (sample_world (\<lambda>k. Reply 350 200)) ''en'' ''Author'' ''rec1''
             ''tbl1'' ''base1''))
   = [sync_request (JObj []) Null (Num 7) Null ''en'' ''base1'' ''tbl1'' ''rec1'' ''post_id_en'']"
proof -
  have creatable: "list_ex (\<lambda>c. fst c = ''post_id_'' @ ''en'') (t_columns content_table)
                   \<or> t_create_error content_table = None"
    by (simp add: sample_creatable)
  have content: "\<not> falsy (getCellValue filled_record ''en'')"
    and author: "\<not> falsy (getCellValue filled_record ''Author'')"
    by (simp_all add: filled_cells)
  have parse: "JSON_parse (sample_world (\<lambda>k. Reply 350 200))
                 (js_String (getCellValue filled_record ''en'')) = Some (JObj [])"
    by (simp add: filled_cells sample_parse)
  have obj: "JObj [] \<noteq> JNull" by simp
  from sync_to_wordpress_valid[OF sample_getTable creatable sample_rec1 content author parse obj refl,
         of "''base1''"]
  show ?thesis by (simp add: filled_cells)
qed

subsection \<open>The identifying context of a request\<close>

text \<open>
  C2, as the code has it: every request a script issues carries \<^verbatim>\<open>base_id\<close>,
  \<^verbatim>\<open>table_id\<close> and \<^verbatim>\<open>record_id\<close> equal to the arguments of the call. The output field
  name is carried as \<^verbatim>\<open>output_column\<close>, equal to the \<^verbatim>\<open>output_column\<close> argument, in
  \<^verbatim>\<open>create_map_image\<close>, \<^verbatim>\<open>ai_generate\<close>, \<^verbatim>\<open>google_search\<close> and
  \<^verbatim>\<open>crawl_url_content\<close>, and equal to the column of one of the languages passed in
  \<^verbatim>\<open>translate_i18n\<close>. \<^verbatim>\<open>sync_to_wordpress\<close> has no output field argument: its payload
  has no \<^verbatim>\<open>output_column\<close> and carries \<^verbatim>\<open>post_id_column\<close>, the name
  \<^verbatim>\<open>post_id_<lang>\<close> built from the \<^verbatim>\<open>lang\<close> argument.
\<close>

theorem requests_carry_identifiers:
  "(\<forall>rq\<in>set (issued w (snd (create_map_image w tpl_column prompt_column output_column record_id
                                  table_id base_id))).
       identifies rq base_id table_id record_id
       \<and> payload rq ''output_column'' = Some (JStr output_column))
   \<and> (\<forall>rq\<in>set (issued w (snd (ai_generate w input_columns system_prompt_name output_column record_id
                                    table_id base_id model openai_json_format))).
       identifies rq base_id table_id record_id
       \<and> payload rq ''output_column'' = Some (JStr output_column))
   \<and> (\<forall>rq\<in>set (issued w (snd (translate_i18n w input_column languages record_id table_id base_id
                                    model))).
       identifies rq base_id table_id record_id
       \<and> (\<exists>l\<in>set languages. payload rq ''output_column'' = Some (JStr (column l))))
   \<and> (\<forall>rq\<in>set (issued w (snd (google_search w input_column output_column record_id table_id
                                    base_id))).
       identifies rq base_id table_id record_id
       \<and> payload rq ''output_column'' = Some (JStr output_column))
   \<and> (\<forall>rq\<in>set (issued w (snd (crawl_url_content w input_column output_column record_id table_id
                                    base_id))).
       identifies rq base_id table_id record_id
       \<and> payload rq ''output_column'' = Some (JStr output_column))
   \<and> (\<forall>rq\<in>set (issued w (snd (sync_to_wordpress w lang author_id_column record_id table_id
                                    base_id))).
       identifies rq base_id table_id record_id
       \<and> payload rq ''post_id_column'' = Some (JStr (''post_id_'' @ lang))
       \<and> payload rq ''output_column'' = None)"
proof (intro conjI)
  show "\<forall>rq\<in>set (issued w (snd (create_map_image w tpl_column prompt_column output_column record_id
                                  table_id base_id))).
       identifies rq base_id table_id record_id
       \<and> payload rq ''output_column'' = Some (JStr output_column)"
    using create_map_image_issued[of w tpl_column prompt_column output_column record_id table_id base_id]
    by (auto simp add: map_image_request_carries)
next
  show "\<forall>rq\<in>set (issued w (snd (ai_generate w input_columns system_prompt_name output_column record_id
                                    table_id base_id model openai_json_format))).
       identifies rq base_id table_id record_id
       \<and> payload rq ''output_column'' = Some (JStr output_column)"
    using ai_generate_issued[of w input_columns system_prompt_name output_column record_id table_id
            base_id model openai_json_format]
    by (auto simp add: ai_generate_request_carries)
next
  from translate_i18n_issued[of languages w input_column record_id table_id base_id model]
  obtain k u where k: "k \<le> length languages"
    and eq: "issued w (snd (translate_i18n w input_column languages record_id table_id base_id model))
             = map (translate_request base_id table_id record_id model u) (take k languages)"
    by blast
  show "\<forall>rq\<in>set (issued w (snd (translate_i18n w input_column languages record_id table_id base_id
                                    model))).
       identifies rq base_id table_id record_id
       \<and> (\<exists>l\<in>set languages. payload rq ''output_column'' = Some (JStr (column l)))"
  proof
    fix rq
    assume "rq \<in> set (issued w (snd (translate_i18n w input_column languages record_id table_id
                                        base_id model)))"
    with eq obtain l where l: "l \<in> set (take k languages)"
      and rq: "rq = translate_request base_id table_id record_id model u l"
      by auto
    from l have "l \<in> set languages" by (rule in_set_takeD)
    with rq show "identifies rq base_id table_id record_id
       \<and> (\<exists>l\<in>set languages. payload rq ''output_column'' = Some (JStr (column l)))"
      using translate_request_carries[of base_id table_id record_id model u l] by blast
  qed
next
  show "\<forall>rq\<in>set (issued w (snd (google_search w input_column output_column record_id table_id
                                    base_id))).
       identifies rq base_id table_id record_id
       \<and> payload rq ''output_column'' = Some (JStr output_column)"
    using google_search_issued[of w input_column output_column record_id table_id base_id]
    by (auto simp add: search_request_carries)
next
  show "\<forall>rq\<in>set (issued w (snd (crawl_url_content w input_column output_column record_id table_id
                                    base_id))).
       identifies rq base_id table_id record_id
       \<and> payload rq ''output_column'' = Some (JStr output_column)"
    using crawl_url_content_issued[of w input_column output_column record_id table_id base_id]
    by (auto simp add: crawl_request_carries)
next
  show "\<forall>rq\<in>set (issued w (snd (sync_to_wordpress w lang author_id_column record_id table_id
                                    base_id))).
       identifies rq base_id table_id record_id
       \<and> payload rq ''post_id_column'' = Some (JStr (''post_id_'' @ lang))
       \<and> payload rq ''output_column'' = None"
    using sync_issued[of w lang author_id_column record_id table_id base_id]
    by (auto simp add: sync_request_carries)
qed

text \<open>On the sample base, every request answered with 200: what each script's requests carry.\<close>

theorem requests_carry_identifiers_witness:
  "map (\<lambda>rq. (payload rq ''base_id'', payload rq ''table_id'', payload rq ''record_id'',
               payload rq ''output_column''))
     (issued (sample_world (\<lambda>k. Reply 350 200))
        (snd (create_map_image (sample_world (\<lambda>k. Reply 350 200)) ''Template'' ''Prompt'' ''Map''
                ''rec1'' ''tbl1'' ''base1'')))
     = [(Some (JStr ''base1''), Some (JStr ''tbl1''), Some (JStr ''rec1''), Some (JStr ''Map''))]
   \<and> map (\<lambda>rq. (payload rq ''base_id'', payload rq ''table_id'', payload rq ''record_id'',
               payload rq ''output_column''))
     (issued (sample_world (\<lambda>k. Reply 350 200))
        (snd (ai_generate (sample_world (\<lambda>k. Reply 350 200)) [''Keywords''] ''summary'' ''Draft''
                ''rec1'' ''tbl1'' ''base1'' ''gpt-4o'' False)))
     = [(Some (JStr ''base1''), Some (JStr ''tbl1''), Some (JStr ''rec1''), Some (JStr ''Draft''))]
   \<and> map (\<lambda>rq. (payload rq ''base_id'', payload rq ''table_id'', payload rq ''record_id''))
     (issued (sample_world (\<lambda>k. Reply 350 200))
        (snd (translate_i18n (sample_world (\<lambda>k. Reply 350 200)) ''en'' three_languages ''rec1''
                ''tbl1'' ''base1'' ''gpt-4o'')))
     = [(Some (JStr ''base1''), Some (JStr ''tbl1''), Some (JStr ''rec1'')),
        (Some (JStr ''base1''), Some (JStr ''tbl1''), Some (JStr ''rec1'')),
        (Some (JStr ''base1''), Some (JStr ''tbl1''), Some (JStr ''rec1''))]
   \<and> map (\<lambda>rq. (payload rq ''base_id'', payload rq ''table_id'', payload rq ''record_id'',
               payload rq ''output_column''))
     (issued (sample_world (\<lambda>k. Reply 350 200))
        (snd (google_search (sample_world (\<lambda>k. Reply 350 200)) ''Keywords'' ''Results'' ''rec1''
                ''tbl1'' ''base1'')))
     = [(Some (JStr ''base1''), Some (JStr ''tbl1''), Some (JStr ''rec1''), Some (JStr ''Results''))]
   \<and> map (\<lambda>rq. (payload rq ''base_id'', payload rq ''table_id'', payload rq ''record_id'',
               payload rq ''output_column''))
     (issued (sample_world (\<lambda>k. Reply 350 200))
        (snd (crawl_url_content (sample_world (\<lambda>k. Reply 350 200)) ''Link'' ''Text'' ''rec1''
                ''tbl1'' ''base1'')))
     = [(Some (JStr ''base1''), Some (JStr ''tbl1''), Some (JStr ''rec1''), Some (JStr ''Text''))]
   \<and> map (\<lambda>rq. (payload rq ''base_id'', payload rq ''table_id'', payload rq ''record_id'',
               payload rq ''post_id_column''))
     (issued (sample_world (\<lambda>k. Reply 350 200))
        (snd (sync_to_wordpress (sample_world (\<lambda>k. Reply 350 200)) ''en'' ''Author'' ''rec1''
                ''tbl1'' ''base1'')))
     = [(Some (JStr ''base1''), Some (JStr ''tbl1''), Some (JStr ''rec1''), Some (JStr ''post_id_en''))]"
proof -
  let ?W = "sample_world (\<lambda>k. Reply 350 200)"
  note all = requests_carry_identifiers
      [where w = "?W" and record_id = "''rec1''" and table_id = "''tbl1''" and base_id = "''base1''"]
  have image: "map (\<lambda>rq. (payload rq ''base_id'', payload rq ''table_id'', payload rq ''record_id'',
               payload rq ''output_column''))
     (issued ?W (snd (create_map_image ?W ''Template'' ''Prompt'' ''Map'' ''rec1'' ''tbl1'' ''base1'')))
     = [(Some (JStr ''base1''), Some (JStr ''tbl1''), Some (JStr ''rec1''), Some (JStr ''Map''))]"
    using all[THEN conjunct1, of "''Template''" "''Prompt''" "''Map''"]
    by (simp add: sample_image_issued identifies_def)
  have generate: "map (\<lambda>rq. (payload rq ''base_id'', payload rq ''table_id'', payload rq ''record_id'',
               payload rq ''output_column''))
     (issued ?W (snd (ai_generate ?W [''Keywords''] ''summary'' ''Draft'' ''rec1'' ''tbl1'' ''base1''
                        ''gpt-4o'' False)))
     = [(Some (JStr ''base1''), Some (JStr ''tbl1''), Some (JStr ''rec1''), Some (JStr ''Draft''))]"
    using all[THEN conjunct2, THEN conjunct1,
              of "[''Keywords'']" "''summary''" "''Draft''" "''gpt-4o''" False]
    by (simp add: sample_generate_issued identifies_def)
  have translate: "map (\<lambda>rq. (payload rq ''base_id'', payload rq ''table_id'', payload rq ''record_id''))
     (issued ?W (snd (translate_i18n ?W ''en'' three_languages ''rec1'' ''tbl1'' ''base1'' ''gpt-4o'')))
     = [(Some (JStr ''base1''), Some (JStr ''tbl1''), Some (JStr ''rec1'')),
        (Some (JStr ''base1''), Some (JStr ''tbl1''), Some (JStr ''rec1'')),
        (Some (JStr ''base1''), Some (JStr ''tbl1''), Some (JStr ''rec1''))]"
    using all[THEN conjunct2, THEN conjunct2, THEN conjunct1, of "''en''" three_languages "''gpt-4o''"]
    unfolding sample_translate_issued
    by (simp add: identifies_def three_languages_def)
  have search: "map (\<lambda>rq. (payload rq ''base_id'', payload rq ''table_id'', payload rq ''record_id'',
               payload rq ''output_column''))
     (issued ?W (snd (google_search ?W ''Keywords'' ''Results'' ''rec1'' ''tbl1'' ''base1'')))
     = [(Some (JStr ''base1''), Some (JStr ''tbl1''), Some (JStr ''rec1''), Some (JStr ''Results''))]"
    using all[THEN conjunct2, THEN conjunct2, THEN conjunct2, THEN conjunct1,
              of "''Keywords''" "''Results''"]
    by (simp add: sample_search_issued identifies_def)
  have crawl: "map (\<lambda>rq. (payload rq ''base_id'', payload rq ''table_id'', payload rq ''record_id'',
               payload rq ''output_column''))
     (issued ?W (snd (crawl_url_content ?W ''Link'' ''Text'' ''rec1'' ''tbl1'' ''base1'')))
     = [(Some (JStr ''base1''), Some (JStr ''tbl1''), Some (JStr ''rec1''), Some (JStr ''Text''))]"
    using all[THEN conjunct2, THEN conjunct2, THEN conjunct2, THEN conjunct2, THEN conjunct1,
              of "''Link''" "''Text''"]
    by (simp add: sample_crawl_issued identifies_def)
  have sync: "map (\<lambda>rq. (payload rq ''base_id'', payload rq ''table_id'', payload rq ''record_id'',
               payload rq ''post_id_column''))
     (issued ?W (snd (sync_to_wordpress ?W ''en'' ''Author'' ''rec1'' ''tbl1'' ''base1'')))
     = [(Some (JStr ''base1''), Some (JStr ''tbl1''), Some (JStr ''rec1''), Some (JStr ''post_id_en''))]"
    using all[THEN conjunct2, THEN conjunct2, THEN conjunct2, THEN conjunct2, THEN conjunct2,
              of "''en''" "''Author''"]
    by (simp add: sample_sync_issued identifies_def)
  from image generate translate search crawl sync show ?thesis by simp
qed

text \<open>
  The claim that the output field name in the payload is an argument of the call,
  verbatim, does not hold of \<^verbatim>\<open>sync_to_wordpress\<close>: on the sample base the payload
  names the field \<^verbatim>\<open>post_id_en\<close>, which is none of the call's arguments, and has no
  \<^verbatim>\<open>output_column\<close>.
\<close>

theorem derived_output_field_counterexample:
  "issued (sample_world (\<lambda>k. Reply 350 200))
     (snd (sync_to_wordpress (sample_world (\<lambda>k. Reply 350 200)) ''en'' ''Author'' ''rec1''
             ''tbl1'' ''base1''))
     = [sync_request (JObj []) Null (Num 7) Null ''en'' ''base1'' ''tbl1'' ''rec1'' ''post_id_en'']
   \<and> payload (sync_request (JObj []) Null (Num 7) Null ''en'' ''base1'' ''tbl1'' ''rec1''
                ''post_id_en'') ''post_id_column'' = Some (JStr ''post_id_en'')
   \<and> payload (sync_request (JObj []) Null (Num 7) Null ''en'' ''base1'' ''tbl1'' ''rec1''
                ''post_id_en'') ''output_column'' = None
   \<and> ''post_id_en'' \<notin> set [''en'', ''Author'', ''rec1'', ''tbl1'', ''base1'']"
  by (simp add: sample_sync_issued sync_request_carries)

end
